theory Spec2Isabelle
  imports Complex_Main
begin

section \<open>Python values, exceptions and effects\<close>

text \<open>
  A Python \<open>str\<close> is a \<open>string\<close> whose elements stand for code points (the fixed
  Spanish texts of the source need only code points below 256, written \<open>CHR 0xE9\<close> and
  so on). \<open>Optional[str]\<close> is \<open>string option\<close>; \<open>x or y\<close> tests truthiness, so
  both \<open>None\<close> and the empty string fall through to \<open>y\<close>.
\<close>

type_synonym uuid = nat
type_synonym bytes = "char list"

datatype json =
    JNull
  | JBool bool
  | JInt int
  | JFloat real
  | JStr string
  | JArr "json list"
  | JObj "(string \<times> json) list"

datatype exn_class =
    OpenAISDKError
  | OpenAIError
  | ElevenLabsError
  | IndexError
  | AttributeError
  | JSONDecodeError
  | IntegrityError
  | DataError
  | MultipleResultsFound
  | OtherError

datatype exn = Exn exn_class string

fun exn_class_of :: "exn \<Rightarrow> exn_class" where
  "exn_class_of (Exn c m) = c"

fun str_exn :: "exn \<Rightarrow> string" where
  "str_exn (Exn c m) = m"

definition truthy :: "string option \<Rightarrow> bool" where
  "truthy x = (case x of None \<Rightarrow> False | Some s \<Rightarrow> s \<noteq> [])"

definition py_or :: "string option \<Rightarrow> string option \<Rightarrow> string option" where
  "py_or x y = (if truthy x then x else y)"

definition or_str :: "string option \<Rightarrow> string \<Rightarrow> string" where
  "or_str x y = (case x of None \<Rightarrow> y | Some s \<Rightarrow> if s = [] then y else s)"

definition format_optional :: "string option \<Rightarrow> string" where
  "format_optional x = (case x of None \<Rightarrow> ''None'' | Some s \<Rightarrow> s)"

fun join :: "string \<Rightarrow> string list \<Rightarrow> string" where
  "join sep [] = []"
| "join sep [x] = x"
| "join sep (x # y # ys) = x @ sep @ join sep (y # ys)"

definition dict_get :: "(string \<times> json) list \<Rightarrow> string \<Rightarrow> json" where
  "dict_get d k = (case map_of d k of None \<Rightarrow> JNull | Some v \<Rightarrow> v)"

fun type_name :: "json \<Rightarrow> string" where
  "type_name JNull = ''NoneType''"
| "type_name (JBool b) = ''bool''"
| "type_name (JInt i) = ''int''"
| "type_name (JFloat r) = ''float''"
| "type_name (JStr s) = ''str''"
| "type_name (JArr xs) = ''list''"
| "type_name (JObj d) = ''dict''"

section \<open>Data model\<close>

datatype CallDirection = INBOUND | OUTBOUND

datatype CallStatus =
  INITIATED | RINGING | IN_PROGRESS | COMPLETED | BUSY | FAILED | NO_ANSWER | CANCELED

record call =
  call_id :: uuid
  twilio_call_sid :: string
  direction :: CallDirection
  from_number :: string
  to_number :: string
  status :: CallStatus
  duration :: "int option"
  recording_url :: "string option"
  transcription :: "string option"
  call_metadata :: "(string \<times> json) list option"

record message =
  role :: string
  content :: string
  timestamp :: string

text \<open>
  The Conversation model class is not among the sources; its columns are the ones the
  handler and the response schema use (the metadata mapping, which the orchestrator never
  touches, is left out). \<open>JNull\<close> in \<open>intent\<close> and \<open>sentiment\<close> is Python's \<open>None\<close>.
\<close>

record conversation =
  conv_id :: uuid
  conv_call_id :: uuid
  messages :: "message list"
  summary :: "string option"
  intent :: json
  sentiment :: json

record voice_profile =
  vp_id :: uuid
  name :: string
  description :: "string option"
  elevenlabs_voice_id :: string
  sample_audio_urls :: "string list option"
  is_active :: bool
  user_id :: "uuid option"

record store =
  calls :: "call list"
  conversations :: "conversation list"
  voice_profiles :: "voice_profile list"

section \<open>Configuration, providers and the world a handler runs in\<close>

record settings =
  twilio_webhook_url :: "string option"
  elevenlabs_model :: string

record openai_service =
  model :: string
  max_tokens :: nat
  temperature :: real

record elevenlabs_service =
  default_voice_id :: "string option"

record phone_agent =
  agent_openai :: openai_service
  system_prompt :: string

record call_handler =
  openai :: openai_service
  elevenlabs :: elevenlabs_service
  phone_agent :: phone_agent

record chat_message =
  chat_role :: string
  chat_content :: string

record chat_request =
  req_model :: string
  req_messages :: "chat_message list"
  req_temperature :: real
  req_max_tokens :: nat

text \<open>A completion response: the message content of each choice (\<open>None\<close> when absent).\<close>

record chat_response =
  choices :: "string option list"

record tts_request =
  tts_text :: string
  tts_voice_id :: string
  tts_model :: string
  tts_stability :: real
  tts_similarity_boost :: real

text \<open>
  What lies outside the program: the completion provider, the speech provider, the JSON
  parser, the clock and the generator of row identifiers. Each is a function the handlers
  consult; a provider answers with an exception (\<open>Inl\<close>) or a value (\<open>Inr\<close>).
\<close>

record env =
  config :: settings
  chat_create :: "chat_request \<Rightarrow> exn + chat_response"
  json_loads :: "string \<Rightarrow> exn + json"
  generate :: "tts_request \<Rightarrow> exn + bytes"
  utcnow :: "nat \<Rightarrow> string"
  uuid4 :: "nat \<Rightarrow> uuid"

datatype log_level = WARNING | ERROR

text \<open>
  The state a handler threads: the committed database, the rows as the session's objects
  hold them (committed rows plus uncommitted changes), every snapshot this session has
  committed (oldest first), the requests sent to the two providers, and the warning and
  error lines logged (info lines and the keyword fields of a line are not recorded).
  The database is taken to be reachable: a query or commit raises only what the data
  itself causes (a value outside the declared type of its column, a unique-constraint
  violation, more than one row for \<open>scalar_one_or_none\<close>). A session is opened for each request by the caller of a
  handler (\<open>open_session\<close>); what that caller does with the session once the handler
  has returned is not part of the handlers.
\<close>

record world =
  database :: store
  working :: store
  commits :: "store list"
  ids_issued :: nat
  clock_reads :: nat
  chat_log :: "chat_request list"
  tts_log :: "tts_request list"
  logged :: "(log_level \<times> string) list"

type_synonym 'a action = "world \<Rightarrow> (exn + 'a) \<times> world"

definition returns :: "'a \<Rightarrow> 'a action" where
  "returns x w = (Inr x, w)"

definition raise_exn :: "exn \<Rightarrow> 'a action" where
  "raise_exn e w = (Inl e, w)"

definition and_then :: "'a action \<Rightarrow> ('a \<Rightarrow> 'b action) \<Rightarrow> 'b action" where
  "and_then m f w = (case m w of (Inl e, w') \<Rightarrow> (Inl e, w') | (Inr x, w') \<Rightarrow> f x w')"

definition try_except :: "'a action \<Rightarrow> (exn \<Rightarrow> 'a action) \<Rightarrow> 'a action" where
  "try_except m h w = (case m w of (Inl e, w') \<Rightarrow> h e w' | (Inr x, w') \<Rightarrow> (Inr x, w'))"

definition logger :: "log_level \<Rightarrow> string \<Rightarrow> unit action" where
  "logger lvl event w = (Inr (), w\<lparr>logged := logged w @ [(lvl, event)]\<rparr>)"

definition new_id :: "env \<Rightarrow> uuid action" where
  "new_id e w = (Inr (uuid4 e (ids_issued w)), w\<lparr>ids_issued := Suc (ids_issued w)\<rparr>)"

definition read_clock :: "env \<Rightarrow> string action" where
  "read_clock e w = (Inr (utcnow e (clock_reads w)), w\<lparr>clock_reads := Suc (clock_reads w)\<rparr>)"

definition open_session :: "store \<Rightarrow> world" where
  "open_session st =
     \<lparr>database = st, working = st, commits = [], ids_issued = 0, clock_reads = 0,
      chat_log = [], tts_log = [], logged = []\<rparr>"

section \<open>The session: queries, row objects and commit\<close>

text \<open>
  A row object obtained from a query is the position of its row in the table, so that a
  later attribute assignment changes exactly that row.
\<close>

definition select_where :: "('a \<Rightarrow> bool) \<Rightarrow> 'a list \<Rightarrow> nat list" where
  "select_where P rows = filter (\<lambda>i. P (rows ! i)) [0..<length rows]"

fun scalar_one_or_none :: "'a list \<Rightarrow> 'a option action" where
  "scalar_one_or_none [] = returns None"
| "scalar_one_or_none [x] = returns (Some x)"
| "scalar_one_or_none (x # y # ys) =
     raise_exn (Exn MultipleResultsFound
       ''Multiple rows were found when one or none was required'')"

definition select_calls :: "(call \<Rightarrow> bool) \<Rightarrow> nat list action" where
  "select_calls P w = (Inr (select_where P (calls (working w))), w)"

definition select_conversations :: "(conversation \<Rightarrow> bool) \<Rightarrow> nat list action" where
  "select_conversations P w = (Inr (select_where P (conversations (working w))), w)"

definition select_voice_profiles :: "(voice_profile \<Rightarrow> bool) \<Rightarrow> nat list action" where
  "select_voice_profiles P w = (Inr (select_where P (voice_profiles (working w))), w)"

definition get_call :: "nat \<Rightarrow> call action" where
  "get_call i w = (Inr (calls (working w) ! i), w)"

definition get_conversation :: "nat \<Rightarrow> conversation action" where
  "get_conversation j w = (Inr (conversations (working w) ! j), w)"

definition get_voice_profile :: "nat \<Rightarrow> voice_profile action" where
  "get_voice_profile k w = (Inr (voice_profiles (working w) ! k), w)"

definition set_call :: "nat \<Rightarrow> (call \<Rightarrow> call) \<Rightarrow> unit action" where
  "set_call i f w =
     (Inr (), w\<lparr>working := (working w)\<lparr>calls := (calls (working w))[i := f (calls (working w) ! i)]\<rparr>\<rparr>)"

definition set_conversation :: "nat \<Rightarrow> (conversation \<Rightarrow> conversation) \<Rightarrow> unit action" where
  "set_conversation j f w =
     (Inr (), w\<lparr>working := (working w)\<lparr>conversations :=
        (conversations (working w))[j := f (conversations (working w) ! j)]\<rparr>\<rparr>)"

definition db_add_call :: "call \<Rightarrow> unit action" where
  "db_add_call c w = (Inr (), w\<lparr>working := (working w)\<lparr>calls := calls (working w) @ [c]\<rparr>\<rparr>)"

definition db_add_conversation :: "conversation \<Rightarrow> unit action" where
  "db_add_conversation c w =
     (Inr (), w\<lparr>working := (working w)\<lparr>conversations := conversations (working w) @ [c]\<rparr>\<rparr>)"

text \<open>
  The Call table declares \<open>String(34)\<close> for \<open>twilio_call_sid\<close>, \<open>String(20)\<close> for
  \<open>from_number\<close> and \<open>to_number\<close>, and \<open>Integer\<close> (32 bits, signed) for \<open>duration\<close>. A
  commit is refused when a row it inserts holds a value outside its column type, or when
  it updates a column to such a value. The rows a session inserts are the ones past the
  end of the committed table; a row it has changed is compared, column by column, with
  the committed row at its position. The column types of the Conversation table are not
  among the sources and are not constrained.
\<close>

definition fits_integer :: "int option \<Rightarrow> bool" where
  "fits_integer d = (case d of None \<Rightarrow> True | Some n \<Rightarrow> - (2 ^ 31) \<le> n \<and> n < 2 ^ 31)"

definition refused_insert :: "call \<Rightarrow> bool" where
  "refused_insert c =
     (34 < length (twilio_call_sid c) \<or> 20 < length (from_number c)
      \<or> 20 < length (to_number c) \<or> \<not> fits_integer (duration c))"

definition refused_update :: "call \<Rightarrow> call \<Rightarrow> bool" where
  "refused_update committed c =
     ((twilio_call_sid c \<noteq> twilio_call_sid committed \<and> 34 < length (twilio_call_sid c))
      \<or> (from_number c \<noteq> from_number committed \<and> 20 < length (from_number c))
      \<or> (to_number c \<noteq> to_number committed \<and> 20 < length (to_number c))
      \<or> (duration c \<noteq> duration committed \<and> \<not> fits_integer (duration c)))"

fun column_violation :: "call list \<Rightarrow> call list \<Rightarrow> bool" where
  "column_violation [] cs = list_ex refused_insert cs"
| "column_violation (d # ds) [] = False"
| "column_violation (d # ds) (c # cs) = (refused_update d c \<or> column_violation ds cs)"

text \<open>
  \<open>twilio_call_sid\<close> is declared \<open>unique=True\<close>: a commit that inserts a Call whose sid
  is already taken is refused.
\<close>

fun unique_violation :: "string list \<Rightarrow> call list \<Rightarrow> bool" where
  "unique_violation seen [] = False"
| "unique_violation seen (c # cs) =
     (twilio_call_sid c \<in> set seen \<or> unique_violation (twilio_call_sid c # seen) cs)"

definition db_commit :: "unit action" where
  "db_commit w =
     (if column_violation (calls (database w)) (calls (working w))
      then (Inl (Exn DataError ''value out of range for the type of its column''), w)
      else if unique_violation (map twilio_call_sid (calls (database w)))
           (drop (length (calls (database w))) (calls (working w)))
      then (Inl (Exn IntegrityError
              ''duplicate key value violates unique constraint on twilio_call_sid''), w)
      else (Inr (), w\<lparr>database := working w, commits := commits w @ [working w]\<rparr>))"

section \<open>Telephony client: call-control markup\<close>

text \<open>
  The markup is the \<open>VoiceResponse\<close> document a generator builds: its verbs in order.
  \<open>Say text language\<close>, \<open>Play url\<close>,
  \<open>Gather input action method speech_timeout language nested\<close>, \<open>Hangup\<close>.
  Its serialisation to XML text is the telephony library's.
\<close>

datatype verb =
    Say string string
  | Play string
  | Gather string string string string string "verb list"
  | Hangup

type_synonym twiml = "verb list"

definition generate_greeting_twiml :: "settings \<Rightarrow> string option \<Rightarrow> twiml" where
  "generate_greeting_twiml cfg message =
     (let greeting = or_str message ''Hello! I am your AI assistant. How can I help you today?'';
          gather = Gather ''speech'' (format_optional (twilio_webhook_url cfg) @ ''/gather'')
                     ''POST'' ''auto'' ''es-ES'' [Say greeting ''es-ES'']
      in [gather, Say ''I didn't receive any input. Goodbye!'' ''es-ES'', Hangup])"

definition generate_response_twiml :: "settings \<Rightarrow> string \<Rightarrow> string option \<Rightarrow> bool \<Rightarrow> twiml" where
  "generate_response_twiml cfg message audio_url continue_conversation =
     (if truthy audio_url then [Play (the audio_url)] else [Say message ''es-ES''])
     @ (if continue_conversation
        then [Gather ''speech'' (format_optional (twilio_webhook_url cfg) @ ''/gather'')
                ''POST'' ''auto'' ''es-ES'' []]
        else [Say ''Thank you for calling. Goodbye!'' ''es-ES'', Hangup])"

definition generate_hangup_twiml :: "string option \<Rightarrow> twiml" where
  "generate_hangup_twiml message =
     (if truthy message then [Say (the message) ''es-ES''] else []) @ [Hangup]"

section \<open>Completion client\<close>

text \<open>
  \<open>chat_completion\<close> returns the text of the first choice, or the stream object when
  \<open>stream\<close> is set; every failure leaves it as an \<open>OpenAIError\<close>.
\<close>

datatype completion = Text string | Stream chat_request

definition chat_completions_create :: "env \<Rightarrow> chat_request \<Rightarrow> chat_response action" where
  "chat_completions_create e req w =
     (chat_create e req, w\<lparr>chat_log := chat_log w @ [req]\<rparr>)"

definition first_choice :: "chat_response \<Rightarrow> string option action" where
  "first_choice response =
     (case choices response of
        [] \<Rightarrow> raise_exn (Exn IndexError ''list index out of range'')
      | c # cs \<Rightarrow> returns c)"

definition completion_request ::
  "openai_service \<Rightarrow> chat_message list \<Rightarrow> string option \<Rightarrow> real option \<Rightarrow>
   nat option \<Rightarrow> chat_request" where
  "completion_request self msgs model_arg temperature_arg max_tokens_arg =
     (let model_to_use = or_str model_arg (model self);
          temp = (case temperature_arg of None \<Rightarrow> temperature self | Some t \<Rightarrow> t);
          tokens = (case max_tokens_arg of None \<Rightarrow> max_tokens self
                    | Some n \<Rightarrow> if n = 0 then max_tokens self else n)
      in \<lparr>req_model = model_to_use, req_messages = msgs,
          req_temperature = temp, req_max_tokens = tokens\<rparr>)"

definition chat_completion ::
  "env \<Rightarrow> openai_service \<Rightarrow> chat_message list \<Rightarrow> string option \<Rightarrow> real option \<Rightarrow>
   nat option \<Rightarrow> bool \<Rightarrow> completion action" where
  "chat_completion e self msgs model_arg temperature_arg max_tokens_arg stream =
     try_except
       (let req = completion_request self msgs model_arg temperature_arg max_tokens_arg
        in if stream then returns (Stream req)
           else and_then (chat_completions_create e req) (\<lambda>response.
                and_then (first_choice response) (\<lambda>c.
                returns (Text (or_str c [])))))
       (\<lambda>ex. if exn_class_of ex = OpenAISDKError
             then and_then (logger ERROR ''OpenAI API error'') (\<lambda>_.
                  raise_exn (Exn OpenAIError (''Chat completion failed: '' @ str_exn ex)))
             else and_then (logger ERROR ''Unexpected error'') (\<lambda>_.
                  raise_exn (Exn OpenAIError (''Unexpected error: '' @ str_exn ex))))"

definition loads :: "env \<Rightarrow> completion \<Rightarrow> json action" where
  "loads e response =
     (case response of
        Text s \<Rightarrow> (case json_loads e s of Inl ex \<Rightarrow> raise_exn ex | Inr v \<Rightarrow> returns v)
      | Stream r \<Rightarrow> raise_exn (Exn OtherError
          ''the JSON object must be str, bytes or bytearray, not async_generator''))"

definition json_get :: "json \<Rightarrow> string \<Rightarrow> json action" where
  "json_get result k =
     (case result of
        JObj d \<Rightarrow> returns (dict_get d k)
      | _ \<Rightarrow> raise_exn (Exn AttributeError
               ([CHR 0x27] @ type_name result @ [CHR 0x27] @ '' object has no attribute ''
                @ [CHR 0x27] @ ''get'' @ [CHR 0x27])))"

definition sentiment_prompt :: "string \<Rightarrow> string" where
  \<open>sentiment_prompt text =
     ''Analyze the sentiment of the following text and provide:'' @ [CHR 0x0A]
     @ ''1. Overall sentiment (positive, negative, or neutral)'' @ [CHR 0x0A]
     @ ''2. Confidence score (0.0 to 1.0)'' @ [CHR 0x0A]
     @ ''3. Key emotions detected'' @ [CHR 0x0A]
     @ [CHR 0x0A]
     @ ''Text: "'' @ text @ ''"'' @ [CHR 0x0A]
     @ [CHR 0x0A]
     @ ''Respond in JSON format:'' @ [CHR 0x0A]
     @ ''{"sentiment": "positive|negative|neutral", "confidence": 0.0-1.0, "emotions": ["emotion1", "emotion2"]}''
     @ [CHR 0x0A]\<close>

definition sentiment_messages :: "string \<Rightarrow> chat_message list" where
  "sentiment_messages text =
     [\<lparr>chat_role = ''system'', chat_content = ''You are a sentiment analysis expert.''\<rparr>,
      \<lparr>chat_role = ''user'', chat_content = sentiment_prompt text\<rparr>]"

definition analyze_sentiment :: "env \<Rightarrow> openai_service \<Rightarrow> string \<Rightarrow> json action" where
  "analyze_sentiment e self text =
     try_except
       (and_then
          (chat_completion e self (sentiment_messages text) None (Some 0) None False)
          (\<lambda>response.
        and_then (loads e response) (\<lambda>result.
        and_then (json_get result ''sentiment'') (\<lambda>_.
        returns result))))
       (\<lambda>ex. and_then (logger ERROR ''Sentiment analysis failed'') (\<lambda>_.
             returns (JObj [(''sentiment'', JStr ''neutral''), (''confidence'', JFloat 0.5),
                            (''emotions'', JArr [])])))"

definition intent_prompt :: "string \<Rightarrow> string" where
  \<open>intent_prompt text =
     ''Detect the intent of the following user message:'' @ [CHR 0x0A]
     @ [CHR 0x0A]
     @ ''Message: "'' @ text @ ''"'' @ [CHR 0x0A]
     @ [CHR 0x0A]
     @ ''Classify into one of these intents:'' @ [CHR 0x0A]
     @ ''- information_request: User wants information'' @ [CHR 0x0A]
     @ ''- appointment_scheduling: User wants to schedule or modify an appointment'' @ [CHR 0x0A]
     @ ''- complaint: User has a complaint or issue'' @ [CHR 0x0A]
     @ ''- general_inquiry: General question'' @ [CHR 0x0A]
     @ ''- greeting: Greeting or small talk'' @ [CHR 0x0A]
     @ ''- other: None of the above'' @ [CHR 0x0A]
     @ [CHR 0x0A]
     @ ''Respond in JSON format:'' @ [CHR 0x0A]
     @ ''{"intent": "intent_name", "confidence": 0.0-1.0, "entities": {}, "summary": "brief summary"}''
     @ [CHR 0x0A]\<close>

definition intent_messages :: "string \<Rightarrow> chat_message list" where
  "intent_messages text =
     [\<lparr>chat_role = ''system'', chat_content = ''You are an intent classification expert.''\<rparr>,
      \<lparr>chat_role = ''user'', chat_content = intent_prompt text\<rparr>]"

definition detect_intent :: "env \<Rightarrow> openai_service \<Rightarrow> string \<Rightarrow> json action" where
  "detect_intent e self text =
     try_except
       (and_then
          (chat_completion e self (intent_messages text) None (Some 0) None False)
          (\<lambda>response.
        and_then (loads e response) (\<lambda>result.
        and_then (json_get result ''intent'') (\<lambda>_.
        returns result))))
       (\<lambda>ex. and_then (logger ERROR ''Intent detection failed'') (\<lambda>_.
             returns (JObj [(''intent'', JStr ''other''), (''confidence'', JFloat 0),
                            (''entities'', JObj []), (''summary'', JStr (take 100 text))])))"

section \<open>Speech synthesis client\<close>

definition text_to_speech ::
  "env \<Rightarrow> elevenlabs_service \<Rightarrow> string \<Rightarrow> string option \<Rightarrow> string option \<Rightarrow> real \<Rightarrow> real \<Rightarrow>
   bytes action" where
  "text_to_speech e self text voice_id model_arg stability similarity_boost =
     try_except
       (let voice_to_use = py_or voice_id (default_voice_id self);
            model_to_use = or_str model_arg (elevenlabs_model (config e))
        in if \<not> truthy voice_to_use
           then raise_exn (Exn ElevenLabsError ''No voice ID provided or configured'')
           else (\<lambda>w.
             (let req = \<lparr>tts_text = text, tts_voice_id = the voice_to_use,
                         tts_model = model_to_use, tts_stability = stability,
                         tts_similarity_boost = similarity_boost\<rparr>
              in (generate e req, w\<lparr>tts_log := tts_log w @ [req]\<rparr>))))
       (\<lambda>ex. and_then (logger ERROR ''Failed to generate speech'') (\<lambda>_.
             raise_exn (Exn ElevenLabsError (''Text-to-speech failed: '' @ str_exn ex))))"

section \<open>Phone agent\<close>

definition format_context :: "(string \<times> string) list \<Rightarrow> string" where
  "format_context context =
     (let parts =
            (case map_of context ''caller_name'' of None \<Rightarrow> []
             | Some v \<Rightarrow> [''Nombre del llamante: '' @ v])
          @ (case map_of context ''caller_number'' of None \<Rightarrow> []
             | Some v \<Rightarrow> [''N'' @ [CHR 0xFA] @ ''mero: '' @ v])
          @ (case map_of context ''business_hours'' of None \<Rightarrow> []
             | Some v \<Rightarrow> [''Horario de atenci'' @ [CHR 0xF3] @ ''n: '' @ v])
          @ (case map_of context ''company_name'' of None \<Rightarrow> []
             | Some v \<Rightarrow> [''Empresa: '' @ v])
      in if parts \<noteq> [] then join '', '' parts else ''No hay contexto adicional'')"

definition fallback_response :: string where
  "fallback_response =
     ''Disculpa, tuve un problema t'' @ [CHR 0xE9] @ ''cnico. '' @ [CHR 0xBF]
     @ ''Podr'' @ [CHR 0xED] @ ''as repetir lo que dijiste?''"

definition build_messages ::
  "phone_agent \<Rightarrow> string \<Rightarrow> chat_message list option \<Rightarrow> (string \<times> string) list option \<Rightarrow>
   chat_message list" where
  "build_messages self user_message conversation_history context =
     [\<lparr>chat_role = ''system'', chat_content = system_prompt self\<rparr>]
     @ (case conversation_history of None \<Rightarrow> [] | Some h \<Rightarrow> h)
     @ (case context of
          None \<Rightarrow> []
        | Some c \<Rightarrow> if c = [] then []
                   else [\<lparr>chat_role = ''system'',
                          chat_content = ''Contexto adicional: '' @ format_context c\<rparr>])
     @ [\<lparr>chat_role = ''user'', chat_content = user_message\<rparr>]"

definition generate_response ::
  "env \<Rightarrow> phone_agent \<Rightarrow> string \<Rightarrow> chat_message list option \<Rightarrow>
   (string \<times> string) list option \<Rightarrow> string action" where
  "generate_response e self user_message conversation_history context =
     try_except
       (and_then
          (chat_completion e (agent_openai self)
             (build_messages self user_message conversation_history context)
             None (Some 0.7) (Some 500) False) (\<lambda>response.
        returns (case response of Text s \<Rightarrow> s | Stream r \<Rightarrow> [])))
       (\<lambda>ex. and_then (logger ERROR ''Failed to generate response'') (\<lambda>_.
             returns fallback_response))"

definition analyze_intent :: "env \<Rightarrow> phone_agent \<Rightarrow> string \<Rightarrow> json action" where
  "analyze_intent e self msg = detect_intent e (agent_openai self) msg"

definition agent_analyze_sentiment :: "env \<Rightarrow> phone_agent \<Rightarrow> string \<Rightarrow> json action" where
  "agent_analyze_sentiment e self msg = analyze_sentiment e (agent_openai self) msg"

section \<open>Conversation store\<close>

text \<open>
  Modelled from the spec: the two methods of the Conversation model class, which is
  not among the sources. \<open>append\<close> "appends to the ordered message sequence, stamps
  current time"; \<open>messages_for_completion\<close> "returns the stored messages verbatim
  (role/content pairs only, timestamps stripped)".
\<close>

definition add_message :: "conversation \<Rightarrow> string \<Rightarrow> string \<Rightarrow> string \<Rightarrow> conversation" where
  "add_message c r txt now =
     c\<lparr>messages := messages c @ [\<lparr>role = r, content = txt, timestamp = now\<rparr>]\<rparr>"

definition get_messages_for_llm :: "conversation \<Rightarrow> chat_message list" where
  "get_messages_for_llm c =
     map (\<lambda>m. \<lparr>chat_role = role m, chat_content = content m\<rparr>) (messages c)"

definition conversation_add_message :: "env \<Rightarrow> nat \<Rightarrow> string \<Rightarrow> string \<Rightarrow> unit action" where
  "conversation_add_message e j r txt =
     and_then (read_clock e) (\<lambda>now. set_conversation j (\<lambda>c. add_message c r txt now))"

section \<open>Call orchestrator\<close>

definition greeting_text :: string where
  "greeting_text =
     [CHR 0xA1] @ ''Hola! Soy tu asistente virtual. '' @ [CHR 0xBF] @ ''En qu'' @ [CHR 0xE9]
     @ '' puedo ayudarte hoy?''"

definition incoming_failure_text :: string where
  "incoming_failure_text =
     ''Lo siento, hay un problema t'' @ [CHR 0xE9] @ ''cnico. Por favor, llama m''
     @ [CHR 0xE1] @ ''s tarde.''"

definition speech_failure_text :: string where
  "speech_failure_text =
     ''Disculpa, tuve un problema. '' @ [CHR 0xBF] @ ''Puedes repetir?''"

definition handle_incoming_call ::
  "env \<Rightarrow> call_handler \<Rightarrow> string \<Rightarrow> string \<Rightarrow> string \<Rightarrow> twiml action" where
  "handle_incoming_call e self call_sid from_no to_no =
     try_except
       (and_then (new_id e) (\<lambda>cid.
        and_then (db_add_call
           \<lparr>call_id = cid, twilio_call_sid = call_sid, direction = INBOUND,
            from_number = from_no, to_number = to_no, status = IN_PROGRESS,
            duration = None, recording_url = None, transcription = None,
            call_metadata = Some []\<rparr>) (\<lambda>_.
        and_then db_commit (\<lambda>_.
        and_then (new_id e) (\<lambda>vid.
        and_then (db_add_conversation
           \<lparr>conv_id = vid, conv_call_id = cid, messages = [], summary = None,
            intent = JNull, sentiment = JNull\<rparr>) (\<lambda>_.
        and_then db_commit (\<lambda>_.
        returns (generate_greeting_twiml (config e) (Some greeting_text)))))))))
       (\<lambda>ex. and_then (logger ERROR ''Failed to handle incoming call'') (\<lambda>_.
             returns (generate_hangup_twiml (Some incoming_failure_text))))"

definition get_active_voice_profile :: "voice_profile option action" where
  "get_active_voice_profile =
     try_except
       (and_then (select_voice_profiles is_active) (\<lambda>ks.
        and_then (scalar_one_or_none (take 1 ks)) (\<lambda>r.
        (case r of
           None \<Rightarrow> returns None
         | Some k \<Rightarrow> and_then (get_voice_profile k) (\<lambda>vp. returns (Some vp))))))
       (\<lambda>ex. returns None)"

definition save_audio :: "bytes \<Rightarrow> string \<Rightarrow> string action" where
  "save_audio audio_bytes call_sid =
     returns (''https://storage.example.com/audio/'' @ call_sid @ ''.mp3'')"

definition summary_prompt :: "message list \<Rightarrow> string" where
  "summary_prompt msgs =
     ''Resume esta conversaci'' @ [CHR 0xF3] @ ''n telef'' @ [CHR 0xF3]
     @ ''nica en 2-3 oraciones:'' @ [CHR 0x0A, CHR 0x0A]
     @ join [CHR 0x0A] (map (\<lambda>m. role m @ '': '' @ content m) msgs)
     @ [CHR 0x0A, CHR 0x0A] @ ''Resume:''"

definition generate_summary :: "env \<Rightarrow> call_handler \<Rightarrow> message list \<Rightarrow> string action" where
  "generate_summary e self msgs =
     try_except
       (and_then
          (chat_completion e (openai self)
             [\<lparr>chat_role = ''user'', chat_content = summary_prompt msgs\<rparr>]
             None (Some 0.3) (Some 150) False) (\<lambda>s.
        returns (case s of Text t \<Rightarrow> t | Stream r \<Rightarrow> [])))
       (\<lambda>ex. and_then (logger ERROR ''Failed to generate summary'') (\<lambda>_.
             returns ''Resumen no disponible''))"

text \<open>
  The body of \<open>handle_user_speech\<close> once both rows are found is \<open>run_turn\<close>, with its
  inner \<open>try\<close> block as \<open>classify_turn\<close> and the steps after the commit as
  \<open>speak_reply\<close>; the part of \<open>handle_call_completed\<close> that writes the summary is
  \<open>summarise\<close>. The statements are in the order of the source.
\<close>

definition classify_turn :: "env \<Rightarrow> call_handler \<Rightarrow> nat \<Rightarrow> string \<Rightarrow> unit action" where
  "classify_turn e self j speech_result =
     try_except
       (and_then (analyze_intent e (phone_agent self) speech_result) (\<lambda>intent_result.
        and_then (json_get intent_result ''intent'') (\<lambda>i.
        and_then (set_conversation j (\<lambda>c. c\<lparr>intent := i\<rparr>)) (\<lambda>_.
        and_then (agent_analyze_sentiment e (phone_agent self) speech_result) (\<lambda>sentiment_result.
        and_then (json_get sentiment_result ''sentiment'') (\<lambda>s.
        set_conversation j (\<lambda>c. c\<lparr>sentiment := s\<rparr>)))))))
       (\<lambda>ex. logger WARNING ''Failed to analyze intent/sentiment'')"

definition speak_reply :: "env \<Rightarrow> call_handler \<Rightarrow> string \<Rightarrow> string \<Rightarrow> twiml action" where
  "speak_reply e self call_sid ai_response =
     and_then get_active_voice_profile (\<lambda>vp.
     and_then (text_to_speech e (elevenlabs self) ai_response
                 (case vp of None \<Rightarrow> None | Some p \<Rightarrow> Some (elevenlabs_voice_id p))
                 None 0.5 0.75) (\<lambda>audio_bytes.
     and_then (save_audio audio_bytes call_sid) (\<lambda>audio_url.
     returns (generate_response_twiml (config e) ai_response (Some audio_url) True))))"

definition turn_context :: "call \<Rightarrow> (string \<times> string) list" where
  "turn_context c = [(''caller_number'', from_number c), (''company_name'', ''Tu Empresa'')]"

definition run_turn :: "env \<Rightarrow> call_handler \<Rightarrow> string \<Rightarrow> string \<Rightarrow> nat \<Rightarrow> nat \<Rightarrow> twiml action" where
  "run_turn e self call_sid speech_result i j =
     and_then (conversation_add_message e j ''user'' speech_result) (\<lambda>_.
     and_then (get_call i) (\<lambda>c.
     and_then (get_conversation j) (\<lambda>v.
     and_then (generate_response e (phone_agent self) speech_result
                 (Some (get_messages_for_llm v))
                 (Some (turn_context c)))
       (\<lambda>ai_response.
     and_then (conversation_add_message e j ''assistant'' ai_response) (\<lambda>_.
     and_then (classify_turn e self j speech_result) (\<lambda>_.
     and_then db_commit (\<lambda>_.
     speak_reply e self call_sid ai_response)))))))"

definition handle_user_speech ::
  "env \<Rightarrow> call_handler \<Rightarrow> string \<Rightarrow> string \<Rightarrow> twiml action" where
  "handle_user_speech e self call_sid speech_result =
     try_except
       (and_then (select_calls (\<lambda>c. twilio_call_sid c = call_sid)) (\<lambda>found.
        and_then (scalar_one_or_none found) (\<lambda>call_row.
        (case call_row of
           None \<Rightarrow> and_then (logger ERROR ''Call not found'') (\<lambda>_.
                   returns (generate_hangup_twiml None))
         | Some i \<Rightarrow>
             and_then (get_call i) (\<lambda>c.
             and_then (select_conversations (\<lambda>v. conv_call_id v = call_id c)) (\<lambda>found_conv.
             and_then (scalar_one_or_none found_conv) (\<lambda>conv_row.
             (case conv_row of
                None \<Rightarrow> and_then (logger ERROR ''Conversation not found'') (\<lambda>_.
                        returns (generate_hangup_twiml None))
              | Some j \<Rightarrow> run_turn e self call_sid speech_result i j))))))))
       (\<lambda>ex. and_then (logger ERROR ''Failed to handle user speech'') (\<lambda>_.
             returns (generate_response_twiml (config e) speech_failure_text None True)))"

definition summarise :: "env \<Rightarrow> call_handler \<Rightarrow> nat option \<Rightarrow> unit action" where
  "summarise e self conv_row =
     (case conv_row of
        None \<Rightarrow> returns ()
      | Some j \<Rightarrow>
          and_then (get_conversation j) (\<lambda>v.
          if messages v \<noteq> []
          then and_then (generate_summary e self (messages v)) (\<lambda>s.
               set_conversation j (\<lambda>c. c\<lparr>summary := Some s\<rparr>))
          else returns ()))"

definition handle_call_completed ::
  "env \<Rightarrow> call_handler \<Rightarrow> string \<Rightarrow> int option \<Rightarrow> string option \<Rightarrow> unit action" where
  "handle_call_completed e self call_sid duration_arg recording_arg =
     try_except
       (and_then (select_calls (\<lambda>c. twilio_call_sid c = call_sid)) (\<lambda>found.
        and_then (scalar_one_or_none found) (\<lambda>call_row.
        (case call_row of
           None \<Rightarrow> returns ()
         | Some i \<Rightarrow>
             and_then (set_call i (\<lambda>c. c\<lparr>status := COMPLETED, duration := duration_arg,
                                         recording_url := recording_arg\<rparr>)) (\<lambda>_.
             and_then (get_call i) (\<lambda>c.
             and_then (select_conversations (\<lambda>v. conv_call_id v = call_id c)) (\<lambda>found_conv.
             and_then (scalar_one_or_none found_conv) (\<lambda>conv_row.
             and_then (summarise e self conv_row) (\<lambda>_.
             db_commit)))))))))
       (\<lambda>ex. logger ERROR ''Failed to handle call completion'')"

section \<open>Notions used to state the properties\<close>

text \<open>
  \<open>only_logs w w'\<close>: between \<open>w\<close> and \<open>w'\<close> nothing but the request logs and the
  logged lines has changed.
\<close>

definition only_logs :: "world \<Rightarrow> world \<Rightarrow> bool" where
  "only_logs w w' \<longleftrightarrow>
     database w' = database w \<and> working w' = working w \<and> commits w' = commits w \<and>
     ids_issued w' = ids_issued w \<and> clock_reads w' = clock_reads w"

text \<open>
  The requests a turn sends to the completion provider: for the reply (the stored
  history, then the user message the turn has just appended, the context block, and the
  user message once more), for the intent and for the sentiment.
\<close>

definition reply_request :: "call_handler \<Rightarrow> call \<Rightarrow> conversation \<Rightarrow> string \<Rightarrow> chat_request" where
  "reply_request self c v speech_result =
     completion_request (agent_openai (phone_agent self))
       (build_messages (phone_agent self) speech_result
          (Some (get_messages_for_llm v @ [\<lparr>chat_role = ''user'', chat_content = speech_result\<rparr>]))
          (Some (turn_context c)))
       None (Some 0.7) (Some 500)"

definition intent_request :: "call_handler \<Rightarrow> string \<Rightarrow> chat_request" where
  "intent_request self speech_result =
     completion_request (agent_openai (phone_agent self)) (intent_messages speech_result)
       None (Some 0) None"

definition sentiment_request :: "call_handler \<Rightarrow> string \<Rightarrow> chat_request" where
  "sentiment_request self speech_result =
     completion_request (agent_openai (phone_agent self)) (sentiment_messages speech_result)
       None (Some 0) None"

definition summary_request :: "call_handler \<Rightarrow> message list \<Rightarrow> chat_request" where
  "summary_request self msgs =
     completion_request (openai self)
       [\<lparr>chat_role = ''user'', chat_content = summary_prompt msgs\<rparr>] None (Some 0.3) (Some 150)"

text \<open>
  What the Completion Client hands back for a request: the text of the first choice
  (empty when the choice has no content), or nothing when the call raises. The summary
  of a message list is that text for the summary request, or the fixed fallback.
\<close>

definition completion_text :: "env \<Rightarrow> chat_request \<Rightarrow> string option" where
  "completion_text e req =
     (case chat_create e req of
        Inl ex \<Rightarrow> None
      | Inr response \<Rightarrow>
          (case choices response of [] \<Rightarrow> None | c # cs \<Rightarrow> Some (or_str c [])))"

definition summary_text :: "env \<Rightarrow> call_handler \<Rightarrow> message list \<Rightarrow> string" where
  "summary_text e self msgs =
     (case completion_text e (summary_request self msgs) of
        None \<Rightarrow> ''Resumen no disponible''
      | Some t \<Rightarrow> t)"

text \<open>
  The positions of the Call rows with a given session id, and of the Conversation rows
  linked to a given Call identifier.
\<close>

definition call_rows :: "string \<Rightarrow> store \<Rightarrow> nat list" where
  "call_rows sid st = select_where (\<lambda>c. twilio_call_sid c = sid) (calls st)"

definition conversation_rows :: "uuid \<Rightarrow> store \<Rightarrow> nat list" where
  "conversation_rows cid st = select_where (\<lambda>v. conv_call_id v = cid) (conversations st)"

text \<open>
  A classification fails when its completion request raises, comes back without a
  choice, or carries text that the JSON parser rejects or that is not a JSON object.
\<close>

definition classification_fails :: "env \<Rightarrow> chat_request \<Rightarrow> bool" where
  "classification_fails e req =
     (case chat_create e req of
        Inl ex \<Rightarrow> True
      | Inr response \<Rightarrow>
          (case choices response of
             [] \<Rightarrow> True
           | c # cs \<Rightarrow>
               (case json_loads e (or_str c []) of
                  Inl ex \<Rightarrow> True
                | Inr v \<Rightarrow> (case v of JObj d \<Rightarrow> False | _ \<Rightarrow> True))))"

section \<open>A concrete deployment and two environments\<close>

definition ex_settings :: settings where
  "ex_settings =
     \<lparr>twilio_webhook_url = Some ''https://example.com/webhooks/twilio'',
      elevenlabs_model = ''eleven_multilingual_v2''\<rparr>"

definition ex_openai :: openai_service where
  "ex_openai = \<lparr>model = ''gpt-4-0125-preview'', max_tokens = 4000, temperature = 0.7\<rparr>"

definition ex_handler :: call_handler where
  "ex_handler =
     \<lparr>openai = ex_openai, elevenlabs = \<lparr>default_voice_id = None\<rparr>,
      phone_agent = \<lparr>agent_openai = ex_openai,
                     system_prompt = ''Eres un asistente virtual profesional para una empresa.''\<rparr>\<rparr>"

text \<open>\<open>env_down\<close>: both providers refuse every request. \<open>env_up\<close>: both answer.\<close>

definition ex_now :: "nat \<Rightarrow> string" where
  "ex_now n = ''2024-01-01T00:00:00''"

definition ex_uuid4 :: "nat \<Rightarrow> uuid" where
  "ex_uuid4 n = 100 + n"

definition provider_refuses :: "chat_request \<Rightarrow> exn + chat_response" where
  "provider_refuses req = Inl (Exn OpenAISDKError ''Connection error.'')"

definition provider_answers :: "chat_request \<Rightarrow> exn + chat_response" where
  "provider_answers req = Inr \<lparr>choices = [Some ''Claro.'']\<rparr>"

definition parser_rejects :: "string \<Rightarrow> exn + json" where
  "parser_rejects s = Inl (Exn JSONDecodeError ''Expecting value: line 1 column 1 (char 0)'')"

definition speech_refuses :: "tts_request \<Rightarrow> exn + bytes" where
  "speech_refuses req = Inl (Exn OtherError ''Service unavailable'')"

definition env_down :: env where
  "env_down =
     \<lparr>config = ex_settings, chat_create = provider_refuses, json_loads = parser_rejects,
      generate = speech_refuses, utcnow = ex_now, uuid4 = ex_uuid4\<rparr>"

definition env_up :: env where
  "env_up =
     \<lparr>config = ex_settings, chat_create = provider_answers, json_loads = parser_rejects,
      generate = speech_refuses, utcnow = ex_now, uuid4 = ex_uuid4\<rparr>"

definition ex_call :: call where
  "ex_call =
     \<lparr>call_id = 1, twilio_call_sid = ''CA123'', direction = INBOUND, from_number = ''+1555'',
      to_number = ''+1800'', status = IN_PROGRESS, duration = None, recording_url = None,
      transcription = None, call_metadata = Some []\<rparr>"

definition ex_conversation :: conversation where
  "ex_conversation =
     \<lparr>conv_id = 2, conv_call_id = 1, messages = [], summary = None,
      intent = JNull, sentiment = JNull\<rparr>"

definition ex_store :: store where
  "ex_store = \<lparr>calls = [ex_call], conversations = [ex_conversation], voice_profiles = []\<rparr>"

text \<open>
  A store left by an earlier call: the Call is completed, its conversation holds a turn
  whose reply came back empty, and an intent and a sentiment are on record.
\<close>

definition ex_silent_reply :: message where
  "ex_silent_reply = \<lparr>role = ''assistant'', content = [], timestamp = ''2024-01-01T00:00:00''\<rparr>"

definition ex_conversation_prior :: conversation where
  "ex_conversation_prior =
     \<lparr>conv_id = 2, conv_call_id = 1,
      messages = [\<lparr>role = ''user'', content = ''hola'', timestamp = ''2024-01-01T00:00:00''\<rparr>,
                  ex_silent_reply],
      summary = None, intent = JStr ''complaint'', sentiment = JStr ''negative''\<rparr>"

definition ex_store_prior :: store where
  "ex_store_prior =
     \<lparr>calls = [ex_call\<lparr>status := COMPLETED\<rparr>], conversations = [ex_conversation_prior],
      voice_profiles = []\<rparr>"



text \<open>The roles of the messages of each conversation of a store, in order.\<close>

definition message_roles :: "store \<Rightarrow> string list list" where
  "message_roles s = map (\<lambda>v. map role (messages v)) (conversations s)"

section \<open>Lemmas about the model\<close>

subsection \<open>The effect monad and the completion client\<close>

lemmas monad_defs = returns_def raise_exn_def and_then_def try_except_def logger_def

lemma only_logs_refl: "only_logs w w"
  by (simp add: only_logs_def)

lemma only_logs_trans: "only_logs w w1 \<Longrightarrow> only_logs w1 w2 \<Longrightarrow> only_logs w w2"
  by (simp add: only_logs_def)

lemma chat_completion_frame:
  "chat_completion e s msgs ma ta xa False w = (x, w') \<Longrightarrow> only_logs w w'"
  unfolding chat_completion_def chat_completions_create_def first_choice_def monad_defs
    only_logs_def Let_def
  by (auto split: sum.splits list.splits if_splits prod.splits)

lemma chat_completion_fails:
  assumes "chat_create e (completion_request s msgs ma ta xa) = Inl ex"
  shows "\<exists>ex' w'. chat_completion e s msgs ma ta xa False w = (Inl ex', w')"
  using assms
  unfolding chat_completion_def chat_completions_create_def first_choice_def monad_defs Let_def
  by (auto split: sum.splits list.splits if_splits prod.splits)

lemma text_or_default:
  assumes fr: "\<And>x w'. cc w = (x, w') \<Longrightarrow> only_logs w w'"
  shows "\<exists>r w'. try_except (and_then cc (\<lambda>response.
              returns (case response of Text s \<Rightarrow> s | Stream q \<Rightarrow> [])))
            (\<lambda>ex. and_then (logger lvl ev) (\<lambda>_. returns dflt)) w = (Inr r, w')
          \<and> only_logs w w' \<and> ((\<exists>ex. fst (cc w) = Inl ex) \<longrightarrow> r = dflt)"
proof -
  obtain x w1 where cc: "cc w = (x, w1)" by (cases "cc w")
  have f: "only_logs w w1" using cc by (rule fr)
  show ?thesis
    using f unfolding monad_defs only_logs_def
    by (cases x) (simp_all add: cc)
qed

lemma generate_response_returns:
  "\<exists>r w'. generate_response e ag u h c w = (Inr r, w') \<and> only_logs w w'"
  unfolding generate_response_def
  using text_or_default[of "chat_completion e (agent_openai ag) (build_messages ag u h c)
      None (Some 0.7) (Some 500) False" w ERROR "''Failed to generate response''" fallback_response]
    chat_completion_frame by blast

lemma generate_response_fails:
  assumes "chat_create e (completion_request (agent_openai ag) (build_messages ag u h c)
             None (Some 0.7) (Some 500)) = Inl ex"
  shows "\<exists>w'. generate_response e ag u h c w = (Inr fallback_response, w') \<and> only_logs w w'"
proof -
  let ?cc = "chat_completion e (agent_openai ag) (build_messages ag u h c)
      None (Some 0.7) (Some 500) False"
  have "\<exists>ex. fst (?cc w) = Inl ex"
    using chat_completion_fails[OF assms, of w] by auto
  then show ?thesis
    unfolding generate_response_def
    using text_or_default[of ?cc w ERROR "''Failed to generate response''" fallback_response]
      chat_completion_frame by blast
qed

lemma generate_summary_returns:
  "\<exists>r w'. generate_summary e self msgs w = (Inr r, w') \<and> only_logs w w'"
  unfolding generate_summary_def
  using text_or_default[of "chat_completion e (openai self)
             [\<lparr>chat_role = ''user'', chat_content = summary_prompt msgs\<rparr>]
             None (Some 0.3) (Some 150) False" w ERROR "''Failed to generate summary''"
             "''Resumen no disponible''"]
    chat_completion_frame by blast

lemma generate_summary_fails:
  assumes "chat_create e (summary_request self msgs) = Inl ex"
  shows "\<exists>w'. generate_summary e self msgs w = (Inr ''Resumen no disponible'', w') \<and> only_logs w w'"
proof -
  let ?cc = "chat_completion e (openai self)
             [\<lparr>chat_role = ''user'', chat_content = summary_prompt msgs\<rparr>]
             None (Some 0.3) (Some 150) False"
  have "\<exists>ex. fst (?cc w) = Inl ex"
    using chat_completion_fails[OF assms[unfolded summary_request_def], of w] by auto
  then show ?thesis
    unfolding generate_summary_def
    using text_or_default[of ?cc w ERROR "''Failed to generate summary''" "''Resumen no disponible''"]
      chat_completion_frame by blast
qed

lemma chat_completion_text:
  assumes "completion_text e (completion_request s msgs ma ta xa) = Some t"
  shows "chat_completion e s msgs ma ta xa False w =
           (Inr (Text t), w\<lparr>chat_log := chat_log w @ [completion_request s msgs ma ta xa]\<rparr>)"
  using assms
  unfolding completion_text_def chat_completion_def chat_completions_create_def
    first_choice_def monad_defs Let_def
  by (auto split: sum.splits list.splits)

lemma chat_completion_raises:
  assumes "completion_text e (completion_request s msgs ma ta xa) = None"
  shows "\<exists>ex w'. chat_completion e s msgs ma ta xa False w = (Inl ex, w')
           \<and> chat_log w' = chat_log w @ [completion_request s msgs ma ta xa]
           \<and> only_logs w w'"
  using assms
  unfolding completion_text_def chat_completion_def chat_completions_create_def
    first_choice_def monad_defs Let_def only_logs_def
  by (auto split: sum.splits list.splits)

lemma generate_summary_exact:
  "\<exists>w'. generate_summary e self msgs w = (Inr (summary_text e self msgs), w')
     \<and> chat_log w' = chat_log w @ [summary_request self msgs] \<and> only_logs w w'"
proof (cases "completion_text e (summary_request self msgs)")
  case None
  then obtain ex w1 where c: "chat_completion e (openai self)
             [\<lparr>chat_role = ''user'', chat_content = summary_prompt msgs\<rparr>]
             None (Some 0.3) (Some 150) False w = (Inl ex, w1)"
    and l: "chat_log w1 = chat_log w @ [summary_request self msgs]" and f: "only_logs w w1"
    using chat_completion_raises[of e "openai self"
        "[\<lparr>chat_role = ''user'', chat_content = summary_prompt msgs\<rparr>]" None "Some 0.3"
        "Some 150" w]
    unfolding summary_request_def by blast
  show ?thesis
    using None c l f unfolding generate_summary_def summary_text_def
    by (simp add: monad_defs only_logs_def)
next
  case (Some t)
  then have c: "chat_completion e (openai self)
             [\<lparr>chat_role = ''user'', chat_content = summary_prompt msgs\<rparr>]
             None (Some 0.3) (Some 150) False w
           = (Inr (Text t), w\<lparr>chat_log := chat_log w @ [summary_request self msgs]\<rparr>)"
    using chat_completion_text[of e "openai self"
        "[\<lparr>chat_role = ''user'', chat_content = summary_prompt msgs\<rparr>]" None "Some 0.3"
        "Some 150" t w]
    unfolding summary_request_def by simp
  show ?thesis
    using Some c unfolding generate_summary_def summary_text_def
    by (simp add: monad_defs only_logs_def)
qed

lemma loads_frame: "loads e r w = (x, w') \<Longrightarrow> w' = w"
  unfolding loads_def monad_defs by (auto split: completion.splits sum.splits)

lemma parse_or_default:
  assumes fr: "\<And>x w'. cc w = (x, w') \<Longrightarrow> only_logs w w'"
  shows "\<exists>d w'. try_except (and_then cc (\<lambda>response.
              and_then (loads e response) (\<lambda>result.
              and_then (json_get result k) (\<lambda>_. returns result))))
            (\<lambda>ex. and_then (logger lvl ev) (\<lambda>_. returns (JObj dflt))) w = (Inr (JObj d), w')
          \<and> only_logs w w' \<and> ((\<exists>ex. fst (cc w) = Inl ex) \<longrightarrow> d = dflt)"
proof -
  obtain x w1 where cc: "cc w = (x, w1)" by (cases "cc w")
  have f: "only_logs w w1" using cc by (rule fr)
  show ?thesis
  proof (cases x)
    case (Inl ex)
    then show ?thesis using f unfolding monad_defs only_logs_def
      by (simp add: cc)
  next
    case (Inr r)
    note r = this
    obtain y w2 where l: "loads e r w1 = (y, w2)" by (cases "loads e r w1")
    have w2: "w2 = w1" using l by (rule loads_frame)
    show ?thesis
    proof (cases y)
      case (Inl ex)
      then show ?thesis using f r l w2 unfolding monad_defs only_logs_def
        by (simp add: cc)
    next
      case (Inr v)
      then show ?thesis using f r l w2
        unfolding monad_defs only_logs_def json_get_def
        by (cases v) (simp_all add: cc)
    qed
  qed
qed

lemma detect_intent_returns:
  "\<exists>d w'. detect_intent e s t w = (Inr (JObj d), w') \<and> only_logs w w'
     \<and> ((\<exists>ex. chat_create e (completion_request s (intent_messages t) None (Some 0) None) = Inl ex)
          \<longrightarrow> dict_get d ''intent'' = JStr ''other'')"
proof -
  let ?cc = "chat_completion e s (intent_messages t) None (Some 0) None False"
  let ?dflt = "[(''intent'', JStr ''other''), (''confidence'', JFloat 0),
                (''entities'', JObj []), (''summary'', JStr (take 100 t))]"
  have d: "dict_get ?dflt ''intent'' = JStr ''other''" by (simp add: dict_get_def)
  have c: "(\<exists>ex. chat_create e (completion_request s (intent_messages t) None (Some 0) None) = Inl ex)
      \<Longrightarrow> \<exists>ex. fst (?cc w) = Inl ex"
    using chat_completion_fails[of e s "intent_messages t" None "Some 0" None _ w] by auto
  show ?thesis
    unfolding detect_intent_def
    using parse_or_default[of ?cc w e "''intent''" ERROR "''Intent detection failed''" ?dflt]
      chat_completion_frame c d by blast
qed

lemma analyze_sentiment_returns:
  "\<exists>d w'. analyze_sentiment e s t w = (Inr (JObj d), w') \<and> only_logs w w'
     \<and> ((\<exists>ex. chat_create e (completion_request s (sentiment_messages t) None (Some 0) None) = Inl ex)
          \<longrightarrow> dict_get d ''sentiment'' = JStr ''neutral'')"
proof -
  let ?cc = "chat_completion e s (sentiment_messages t) None (Some 0) None False"
  let ?dflt = "[(''sentiment'', JStr ''neutral''), (''confidence'', JFloat 0.5),
                (''emotions'', JArr [])]"
  have d: "dict_get ?dflt ''sentiment'' = JStr ''neutral''" by (simp add: dict_get_def)
  have c: "(\<exists>ex. chat_create e (completion_request s (sentiment_messages t) None (Some 0) None) = Inl ex)
      \<Longrightarrow> \<exists>ex. fst (?cc w) = Inl ex"
    using chat_completion_fails[of e s "sentiment_messages t" None "Some 0" None _ w] by auto
  show ?thesis
    unfolding analyze_sentiment_def
    using parse_or_default[of ?cc w e "''sentiment''" ERROR "''Sentiment analysis failed''" ?dflt]
      chat_completion_frame c d by blast
qed

subsection \<open>Classification, speech synthesis and the session\<close>

lemma select_where_bounds:
  "k \<in> set (select_where P rows) \<Longrightarrow> k < length rows \<and> P (rows ! k)"
  by (simp add: select_where_def)

lemma select_where_single:
  "select_where P rows = [k] \<Longrightarrow> k < length rows \<and> P (rows ! k)"
  using select_where_bounds[of k P rows] by simp

lemma select_where_empty:
  "(\<forall>r \<in> set rows. \<not> P r) \<Longrightarrow> select_where P rows = []"
  by (simp add: select_where_def filter_empty_conv)

lemma select_where_Nil: "select_where P [] = []"
  by (simp add: select_where_def)

lemma select_where_snoc:
  "select_where P (rows @ [r]) = select_where P rows @ (if P r then [length rows] else [])"
proof -
  have "filter (\<lambda>i. P ((rows @ [r]) ! i)) [0..<length rows]
        = filter (\<lambda>i. P (rows ! i)) [0..<length rows]"
    by (rule filter_cong) (auto simp: nth_append)
  then show ?thesis by (simp add: select_where_def)
qed

lemma detect_intent_fails:
  assumes "classification_fails e (completion_request s (intent_messages t) None (Some 0) None)"
  shows "\<exists>w'. detect_intent e s t w =
           (Inr (JObj [(''intent'', JStr ''other''), (''confidence'', JFloat 0),
                       (''entities'', JObj []), (''summary'', JStr (take 100 t))]), w')"
  using assms
  unfolding classification_fails_def detect_intent_def chat_completion_def
    chat_completions_create_def first_choice_def loads_def json_get_def monad_defs Let_def
  by (auto split: sum.splits list.splits json.splits if_splits)

lemma analyze_sentiment_fails:
  assumes "classification_fails e (completion_request s (sentiment_messages t) None (Some 0) None)"
  shows "\<exists>w'. analyze_sentiment e s t w =
           (Inr (JObj [(''sentiment'', JStr ''neutral''), (''confidence'', JFloat 0.5),
                            (''emotions'', JArr [])]), w')"
  using assms
  unfolding classification_fails_def analyze_sentiment_def chat_completion_def
    chat_completions_create_def first_choice_def loads_def json_get_def monad_defs Let_def
  by (auto split: sum.splits list.splits json.splits if_splits)

lemma set_conversation_eq:
  "set_conversation j f w =
     (Inr (), w\<lparr>working := (working w)\<lparr>conversations :=
        (conversations (working w))[j := f (conversations (working w) ! j)]\<rparr>\<rparr>)"
  by (simp add: set_conversation_def)

lemma classify_turn_effect:
  "\<exists>iv sv w'. classify_turn e self j sp w = (Inr (), w')
     \<and> working w' = (working w)\<lparr>conversations :=
          (conversations (working w))[j := (conversations (working w) ! j)\<lparr>intent := iv, sentiment := sv\<rparr>]\<rparr>
     \<and> database w' = database w \<and> commits w' = commits w
     \<and> (classification_fails e (intent_request self sp) \<longrightarrow> iv = JStr ''other'')
     \<and> (classification_fails e (sentiment_request self sp) \<longrightarrow> sv = JStr ''neutral'')"
proof -
  let ?s = "agent_openai (phone_agent self)"
  let ?cs = "conversations (working w)"
  obtain d1 w1 where i: "detect_intent e ?s sp w = (Inr (JObj d1), w1)" and f1: "only_logs w w1"
    using detect_intent_returns[of e ?s sp w] by blast
  have x1: "classification_fails e (intent_request self sp) \<longrightarrow> dict_get d1 ''intent'' = JStr ''other''"
    using detect_intent_fails[of e ?s sp w] i unfolding intent_request_def
    by (auto simp: dict_get_def)
  let ?w1 = "w1\<lparr>working := (working w1)\<lparr>conversations :=
        (conversations (working w1))[j := (conversations (working w1) ! j)\<lparr>intent := dict_get d1 ''intent''\<rparr>]\<rparr>\<rparr>"
  obtain d2 w2 where s: "analyze_sentiment e ?s sp ?w1 = (Inr (JObj d2), w2)" and f2: "only_logs ?w1 w2"
    using analyze_sentiment_returns[of e ?s sp ?w1] by blast
  have x2: "classification_fails e (sentiment_request self sp) \<longrightarrow> dict_get d2 ''sentiment'' = JStr ''neutral''"
    using analyze_sentiment_fails[of e ?s sp ?w1] s unfolding sentiment_request_def
    by (auto simp: dict_get_def)
  let ?w2 = "w2\<lparr>working := (working w2)\<lparr>conversations :=
        (conversations (working w2))[j := (conversations (working w2) ! j)\<lparr>sentiment := dict_get d2 ''sentiment''\<rparr>]\<rparr>\<rparr>"
  have run: "classify_turn e self j sp w = (Inr (), ?w2)"
    unfolding classify_turn_def analyze_intent_def agent_analyze_sentiment_def
    by (simp add: and_then_def try_except_def i s json_get_def returns_def set_conversation_def)
  have wk: "working ?w2 = (working w)\<lparr>conversations :=
          ?cs[j := (?cs ! j)\<lparr>intent := dict_get d1 ''intent'', sentiment := dict_get d2 ''sentiment''\<rparr>]\<rparr>"
    using f1 f2 unfolding only_logs_def
    by (cases "j < length ?cs") (simp_all add: list_update_beyond not_less)
  have rest: "database ?w2 = database w" "commits ?w2 = commits w"
    using f1 f2 unfolding only_logs_def by simp_all
  show ?thesis using run wk rest x1 x2 by blast
qed

lemma get_active_voice_profile_returns:
  "\<exists>vp. get_active_voice_profile w = (Inr vp, w)"
  unfolding get_active_voice_profile_def select_voice_profiles_def get_voice_profile_def monad_defs
  by (cases "select_where is_active (voice_profiles (working w))") (simp_all add: monad_defs)

lemma text_to_speech_frame:
  "text_to_speech e s t v m a b w = (x, w') \<Longrightarrow> only_logs w w'"
  unfolding text_to_speech_def monad_defs only_logs_def Let_def
  by (auto split: sum.splits if_splits prod.splits)

lemma speak_reply_effect:
  "\<exists>x w'. speak_reply e self sid r w = (x, w') \<and> only_logs w w'
     \<and> (x = Inr (generate_response_twiml (config e) r
                   (Some (''https://storage.example.com/audio/'' @ sid @ ''.mp3'')) True)
         \<or> (\<exists>ex. x = Inl ex))"
proof -
  obtain vp where v: "get_active_voice_profile w = (Inr vp, w)"
    using get_active_voice_profile_returns by blast
  let ?t = "text_to_speech e (elevenlabs self) r
                 (case vp of None \<Rightarrow> None | Some p \<Rightarrow> Some (elevenlabs_voice_id p))
                 None 0.5 0.75 w"
  obtain y w1 where t: "?t = (y, w1)" by (cases ?t)
  have f: "only_logs w w1" using t by (rule text_to_speech_frame)
  show ?thesis
    using f t unfolding speak_reply_def save_audio_def
    by (cases y) (simp_all add: and_then_def returns_def v)
qed

lemma column_violation_same: "\<not> column_violation cs cs"
  by (induction cs) (simp_all add: refused_update_def)

lemma column_violation_snoc: "column_violation cs (cs @ [c]) = refused_insert c"
  by (induction cs) (simp_all add: refused_update_def)

lemma column_violation_update:
  "i < length cs \<Longrightarrow> column_violation cs (cs[i := c]) = refused_update (cs ! i) c"
proof (induction cs arbitrary: i)
  case Nil
  then show ?case by simp
next
  case (Cons d ds)
  then show ?case
    by (cases i) (simp_all add: column_violation_same refused_update_def)
qed

lemma db_commit_unchanged_calls:
  "calls (working w) = calls (database w) \<Longrightarrow>
   db_commit w = (Inr (), w\<lparr>database := working w, commits := commits w @ [working w]\<rparr>)"
  by (simp add: db_commit_def column_violation_same)

lemma db_commit_updated_call:
  assumes "calls (working w) = (calls (database w))[i := c]" and "i < length (calls (database w))"
  shows "db_commit w =
     (if refused_update (calls (database w) ! i) c
      then (Inl (Exn DataError ''value out of range for the type of its column''), w)
      else (Inr (), w\<lparr>database := working w, commits := commits w @ [working w]\<rparr>))"
  using assms by (simp add: db_commit_def column_violation_update)

lemma conversation_add_message_eq:
  "conversation_add_message e j r txt w =
     (Inr (), w\<lparr>clock_reads := Suc (clock_reads w),
                working := (working w)\<lparr>conversations :=
       (conversations (working w))[j := add_message (conversations (working w) ! j) r txt
          (utcnow e (clock_reads w))]\<rparr>\<rparr>)"
  by (simp add: conversation_add_message_def read_clock_def set_conversation_def and_then_def)

subsection \<open>One conversation turn\<close>

lemma and_then_Inr: "m w = (Inr x, w1) \<Longrightarrow> f x w1 = res \<Longrightarrow> and_then m f w = res"
  by (simp add: and_then_def)

lemma and_then_Inl: "m w = (Inl ex, w1) \<Longrightarrow> and_then m f w = (Inl ex, w1)"
  by (simp add: and_then_def)

lemma try_except_Inr: "m w = (Inr x, w1) \<Longrightarrow> try_except m h w = (Inr x, w1)"
  by (simp add: try_except_def)

lemma try_except_Inl: "m w = (Inl ex, w1) \<Longrightarrow> h ex w1 = res \<Longrightarrow> try_except m h w = res"
  by (simp add: try_except_def)

lemma get_messages_for_llm_add:
  "get_messages_for_llm (add_message v r txt now)
     = get_messages_for_llm v @ [\<lparr>chat_role = r, chat_content = txt\<rparr>]"
  by (simp add: get_messages_for_llm_def add_message_def)

lemma run_turn_effect:
  assumes j: "j < length (conversations (working w))"
    and n: "calls (working w) = calls (database w)"
  shows "\<exists>r iv sv x w'. run_turn e self sid sp i j w = (x, w')
     \<and> (x = Inr (generate_response_twiml (config e) r
                   (Some (''https://storage.example.com/audio/'' @ sid @ ''.mp3'')) True)
         \<or> (\<exists>ex. x = Inl ex))
     \<and> working w' = (working w)\<lparr>conversations := (conversations (working w))
          [j := (conversations (working w) ! j)
             \<lparr>messages := messages (conversations (working w) ! j)
                @ [\<lparr>role = ''user'', content = sp, timestamp = utcnow e (clock_reads w)\<rparr>,
                   \<lparr>role = ''assistant'', content = r, timestamp = utcnow e (Suc (clock_reads w))\<rparr>],
              intent := iv, sentiment := sv\<rparr>]\<rparr>
     \<and> database w' = working w' \<and> commits w' = commits w @ [working w']
     \<and> ((\<exists>ex. chat_create e (reply_request self (calls (working w) ! i)
                   (conversations (working w) ! j) sp) = Inl ex) \<longrightarrow> r = fallback_response)
     \<and> (classification_fails e (intent_request self sp) \<longrightarrow> iv = JStr ''other'')
     \<and> (classification_fails e (sentiment_request self sp) \<longrightarrow> sv = JStr ''neutral'')"
proof -
  let ?cs = "conversations (working w)"
  let ?v0 = "?cs ! j"
  let ?c = "calls (working w) ! i"
  let ?va = "add_message ?v0 ''user'' sp (utcnow e (clock_reads w))"
  define wa where "wa = w\<lparr>clock_reads := Suc (clock_reads w),
                working := (working w)\<lparr>conversations := ?cs[j := ?va]\<rparr>\<rparr>"
  have s1: "conversation_add_message e j ''user'' sp w = (Inr (), wa)"
    by (simp add: conversation_add_message_eq wa_def)
  have s2: "get_call i wa = (Inr ?c, wa)"
    by (simp add: get_call_def wa_def)
  have s3: "get_conversation j wa = (Inr ?va, wa)"
    using j by (simp add: get_conversation_def wa_def)
  let ?hist = "Some (get_messages_for_llm ?va)"
  let ?ctx = "Some (turn_context ?c)"
  obtain r wb where s4: "generate_response e (phone_agent self) sp ?hist ?ctx wa = (Inr r, wb)"
    and fb: "only_logs wa wb"
    using generate_response_returns by blast
  have rf: "(\<exists>ex. chat_create e (reply_request self ?c ?v0 sp) = Inl ex) \<longrightarrow> r = fallback_response"
  proof
    assume "\<exists>ex. chat_create e (reply_request self ?c ?v0 sp) = Inl ex"
    then obtain ex where "chat_create e (completion_request (agent_openai (phone_agent self))
        (build_messages (phone_agent self) sp ?hist ?ctx) None (Some 0.7) (Some 500)) = Inl ex"
      unfolding reply_request_def get_messages_for_llm_add by blast
    from generate_response_fails[OF this, of wa] s4 show "r = fallback_response" by simp
  qed
  let ?vb = "add_message ?va ''assistant'' r (utcnow e (Suc (clock_reads w)))"
  define wc where "wc = wb\<lparr>clock_reads := Suc (Suc (clock_reads w)),
                working := (working w)\<lparr>conversations := ?cs[j := ?vb]\<rparr>\<rparr>"
  have s5: "conversation_add_message e j ''assistant'' r wb = (Inr (), wc)"
    using fb j by (simp add: conversation_add_message_eq wc_def wa_def only_logs_def)
  obtain iv sv wd where s6: "classify_turn e self j sp wc = (Inr (), wd)"
    and wk: "working wd = (working wc)\<lparr>conversations :=
          (conversations (working wc))[j := (conversations (working wc) ! j)\<lparr>intent := iv, sentiment := sv\<rparr>]\<rparr>"
    and dbd: "database wd = database wc" and cmd: "commits wd = commits wc"
    and xi: "classification_fails e (intent_request self sp) \<longrightarrow> iv = JStr ''other''"
    and xs: "classification_fails e (sentiment_request self sp) \<longrightarrow> sv = JStr ''neutral''"
    using classify_turn_effect[of e self j sp wc] by blast
  have dbc: "database wc = database w" "commits wc = commits w"
    using fb by (simp_all add: wc_def wa_def only_logs_def)
  have wkd: "working wd = (working w)\<lparr>conversations := ?cs
          [j := ?v0\<lparr>messages := messages ?v0
                @ [\<lparr>role = ''user'', content = sp, timestamp = utcnow e (clock_reads w)\<rparr>,
                   \<lparr>role = ''assistant'', content = r, timestamp = utcnow e (Suc (clock_reads w))\<rparr>],
              intent := iv, sentiment := sv\<rparr>]\<rparr>"
    using j by (simp add: wk wc_def add_message_def)
  define we where "we = wd\<lparr>database := working wd, commits := commits wd @ [working wd]\<rparr>"
  have "calls (working wd) = calls (database wd)"
    using n by (simp add: wkd dbd dbc)
  then have s7: "db_commit wd = (Inr (), we)"
    by (simp add: db_commit_unchanged_calls we_def)
  obtain x wf where s8: "speak_reply e self sid r we = (x, wf)" and ff: "only_logs we wf"
    and xr: "x = Inr (generate_response_twiml (config e) r
                   (Some (''https://storage.example.com/audio/'' @ sid @ ''.mp3'')) True)
         \<or> (\<exists>ex. x = Inl ex)"
    using speak_reply_effect[of e self sid r we] by blast
  have run: "run_turn e self sid sp i j w = (x, wf)"
    unfolding run_turn_def
    by (rule and_then_Inr, rule s1, rule and_then_Inr, rule s2, rule and_then_Inr, rule s3,
        rule and_then_Inr, rule s4, rule and_then_Inr, rule s5, rule and_then_Inr, rule s6,
        rule and_then_Inr, rule s7, rule s8)
  have fin: "working wf = working wd" "database wf = working wf"
    "commits wf = commits w @ [working wf]"
    using ff by (simp_all add: only_logs_def we_def cmd dbc)
  show ?thesis
    using run xr fin wkd rf xi xs by auto
qed

subsection \<open>handle_user_speech\<close>

lemma try_except_total:
  assumes "\<And>ex w1. \<exists>x w2. h ex w1 = (Inr x, w2)"
  shows "\<exists>x w'. try_except m h w = (Inr x, w')"
proof (cases "m w")
  case (Pair r w1)
  then show ?thesis using assms[of _ w1] by (cases r) (auto simp: try_except_def)
qed

lemma handle_user_speech_returns:
  "\<exists>m w'. handle_user_speech e self sid sp w = (Inr m, w')"
  unfolding handle_user_speech_def
  by (rule try_except_total) (simp add: and_then_def logger_def returns_def)


lemma handle_user_speech_unknown_call:
  assumes "call_rows sid st = []"
  shows "handle_user_speech e self sid sp (open_session st) =
           (Inr (generate_hangup_twiml None),
            (open_session st)\<lparr>logged := [(ERROR, ''Call not found'')]\<rparr>)"
  using assms unfolding call_rows_def handle_user_speech_def select_calls_def
  by (simp add: monad_defs open_session_def)

lemma handle_user_speech_no_conversation:
  assumes "call_rows sid st = [i]" "conversation_rows (call_id (calls st ! i)) st = []"
  shows "handle_user_speech e self sid sp (open_session st) =
           (Inr (generate_hangup_twiml None),
            (open_session st)\<lparr>logged := [(ERROR, ''Conversation not found'')]\<rparr>)"
  using assms unfolding call_rows_def conversation_rows_def handle_user_speech_def
    select_calls_def select_conversations_def get_call_def
  by (simp add: monad_defs open_session_def)

lemma handle_user_speech_found:
  assumes ci: "call_rows sid st = [i]"
    and cj: "conversation_rows (call_id (calls st ! i)) st = [j]"
  shows "\<exists>r iv sv m w'. handle_user_speech e self sid sp (open_session st) = (Inr m, w')
     \<and> (m = generate_response_twiml (config e) r
                   (Some (''https://storage.example.com/audio/'' @ sid @ ''.mp3'')) True
         \<or> m = generate_response_twiml (config e) speech_failure_text None True)
     \<and> database w' = st\<lparr>conversations := (conversations st)
          [j := (conversations st ! j)
             \<lparr>messages := messages (conversations st ! j)
                @ [\<lparr>role = ''user'', content = sp, timestamp = utcnow e 0\<rparr>,
                   \<lparr>role = ''assistant'', content = r, timestamp = utcnow e 1\<rparr>],
              intent := iv, sentiment := sv\<rparr>]\<rparr>
     \<and> working w' = database w' \<and> commits w' = [database w']
     \<and> ((\<exists>ex. chat_create e (reply_request self (calls st ! i) (conversations st ! j) sp) = Inl ex)
          \<longrightarrow> r = fallback_response)
     \<and> (classification_fails e (intent_request self sp) \<longrightarrow> iv = JStr ''other'')
     \<and> (classification_fails e (sentiment_request self sp) \<longrightarrow> sv = JStr ''neutral'')"
proof -
  let ?w = "open_session st"
  have j: "j < length (conversations (working ?w))"
    using select_where_single[OF cj[unfolded conversation_rows_def]] by (simp add: open_session_def)
  have n: "calls (working ?w) = calls (database ?w)"
    by (simp add: open_session_def)
  obtain r iv sv x w1 where run: "run_turn e self sid sp i j ?w = (x, w1)"
    and xr: "x = Inr (generate_response_twiml (config e) r
                   (Some (''https://storage.example.com/audio/'' @ sid @ ''.mp3'')) True)
         \<or> (\<exists>ex. x = Inl ex)"
    and wk: "working w1 = (working ?w)\<lparr>conversations := (conversations (working ?w))
          [j := (conversations (working ?w) ! j)
             \<lparr>messages := messages (conversations (working ?w) ! j)
                @ [\<lparr>role = ''user'', content = sp, timestamp = utcnow e (clock_reads ?w)\<rparr>,
                   \<lparr>role = ''assistant'', content = r, timestamp = utcnow e (Suc (clock_reads ?w))\<rparr>],
              intent := iv, sentiment := sv\<rparr>]\<rparr>"
    and db: "database w1 = working w1" and cm: "commits w1 = commits ?w @ [working w1]"
    and rf: "(\<exists>ex. chat_create e (reply_request self (calls (working ?w) ! i)
                   (conversations (working ?w) ! j) sp) = Inl ex) \<longrightarrow> r = fallback_response"
    and xi: "classification_fails e (intent_request self sp) \<longrightarrow> iv = JStr ''other''"
    and xs: "classification_fails e (sentiment_request self sp) \<longrightarrow> sv = JStr ''neutral''"
    using run_turn_effect[OF j n, of e self sid sp i] by blast
  have body: "(and_then (select_calls (\<lambda>c. twilio_call_sid c = sid)) (\<lambda>found.
        and_then (scalar_one_or_none found) (\<lambda>call_row.
        (case call_row of
           None \<Rightarrow> and_then (logger ERROR ''Call not found'') (\<lambda>_.
                   returns (generate_hangup_twiml None))
         | Some i \<Rightarrow>
             and_then (get_call i) (\<lambda>c.
             and_then (select_conversations (\<lambda>v. conv_call_id v = call_id c)) (\<lambda>found_conv.
             and_then (scalar_one_or_none found_conv) (\<lambda>conv_row.
             (case conv_row of
                None \<Rightarrow> and_then (logger ERROR ''Conversation not found'') (\<lambda>_.
                        returns (generate_hangup_twiml None))
              | Some j \<Rightarrow> run_turn e self sid sp i j)))))))) ?w = (x, w1)"
    using ci cj run unfolding call_rows_def conversation_rows_def select_calls_def
      select_conversations_def get_call_def
    by (simp add: and_then_def returns_def open_session_def)
  show ?thesis
  proof (cases x)
    case (Inr m)
    with body have b: "(and_then (select_calls (\<lambda>c. twilio_call_sid c = sid)) (\<lambda>found.
        and_then (scalar_one_or_none found) (\<lambda>call_row.
        (case call_row of
           None \<Rightarrow> and_then (logger ERROR ''Call not found'') (\<lambda>_.
                   returns (generate_hangup_twiml None))
         | Some i \<Rightarrow>
             and_then (get_call i) (\<lambda>c.
             and_then (select_conversations (\<lambda>v. conv_call_id v = call_id c)) (\<lambda>found_conv.
             and_then (scalar_one_or_none found_conv) (\<lambda>conv_row.
             (case conv_row of
                None \<Rightarrow> and_then (logger ERROR ''Conversation not found'') (\<lambda>_.
                        returns (generate_hangup_twiml None))
              | Some j \<Rightarrow> run_turn e self sid sp i j)))))))) ?w = (Inr m, w1)"
      by simp
    have "handle_user_speech e self sid sp ?w = (Inr m, w1)"
      unfolding handle_user_speech_def by (rule try_except_Inr, rule b)
    then show ?thesis using Inr xr wk db cm rf xi xs
      by (auto simp: open_session_def)
  next
    case (Inl ex)
    with body have b: "(and_then (select_calls (\<lambda>c. twilio_call_sid c = sid)) (\<lambda>found.
        and_then (scalar_one_or_none found) (\<lambda>call_row.
        (case call_row of
           None \<Rightarrow> and_then (logger ERROR ''Call not found'') (\<lambda>_.
                   returns (generate_hangup_twiml None))
         | Some i \<Rightarrow>
             and_then (get_call i) (\<lambda>c.
             and_then (select_conversations (\<lambda>v. conv_call_id v = call_id c)) (\<lambda>found_conv.
             and_then (scalar_one_or_none found_conv) (\<lambda>conv_row.
             (case conv_row of
                None \<Rightarrow> and_then (logger ERROR ''Conversation not found'') (\<lambda>_.
                        returns (generate_hangup_twiml None))
              | Some j \<Rightarrow> run_turn e self sid sp i j)))))))) ?w = (Inl ex, w1)"
      by simp
    have "handle_user_speech e self sid sp ?w =
        (Inr (generate_response_twiml (config e) speech_failure_text None True),
         w1\<lparr>logged := logged w1 @ [(ERROR, ''Failed to handle user speech'')]\<rparr>)"
      unfolding handle_user_speech_def
      by (rule try_except_Inl, rule b) (simp add: and_then_def logger_def returns_def)
    then show ?thesis using wk db cm rf xi xs
      by (auto simp: open_session_def)
  qed
qed

subsection \<open>handle_call_completed, handle_incoming_call and text_to_speech\<close>

lemma summarise_effect:
  assumes "length js \<le> 1"
  shows "\<exists>w'. and_then (scalar_one_or_none js) (summarise e self) w = (Inr (), w')
     \<and> database w' = database w \<and> commits w' = commits w
     \<and> calls (working w') = calls (working w)
     \<and> voice_profiles (working w') = voice_profiles (working w)
     \<and> (case js of
           [] \<Rightarrow> conversations (working w') = conversations (working w)
                 \<and> chat_log w' = chat_log w
         | j # _ \<Rightarrow>
             if messages (conversations (working w) ! j) = []
             then conversations (working w') = conversations (working w)
                  \<and> chat_log w' = chat_log w
             else conversations (working w') = (conversations (working w))
                    [j := (conversations (working w) ! j)
                       \<lparr>summary := Some (summary_text e self
                                          (messages (conversations (working w) ! j)))\<rparr>]
                  \<and> chat_log w' = chat_log w
                       @ [summary_request self (messages (conversations (working w) ! j))])"
proof (cases js)
  case Nil
  then show ?thesis by (simp add: summarise_def and_then_def returns_def)
next
  case (Cons j rest)
  with assms have js: "js = [j]" by simp
  let ?v = "conversations (working w) ! j"
  show ?thesis
  proof (cases "messages ?v = []")
    case True
    then show ?thesis using js
      by (simp add: summarise_def and_then_def returns_def get_conversation_def)
  next
    case False
    obtain w2 where g: "generate_summary e self (messages ?v) w
                          = (Inr (summary_text e self (messages ?v)), w2)"
      and l: "chat_log w2 = chat_log w @ [summary_request self (messages ?v)]"
      and f: "only_logs w w2"
      using generate_summary_exact by blast
    have "and_then (scalar_one_or_none js) (summarise e self) w =
            (Inr (), w2\<lparr>working := (working w2)\<lparr>conversations :=
               (conversations (working w2))[j := (conversations (working w2) ! j)
                  \<lparr>summary := Some (summary_text e self (messages ?v))\<rparr>]\<rparr>\<rparr>)"
      using False js g
      by (simp add: summarise_def and_then_def returns_def get_conversation_def set_conversation_def)
    then show ?thesis using False js l f
      by (auto simp: only_logs_def)
  qed
qed

lemma handle_call_completed_found:
  assumes ci: "call_rows sid st = [i]"
    and cj: "length (conversation_rows (call_id (calls st ! i)) st) \<le> 1"
  shows "\<exists>w'. handle_call_completed e self sid d rc (open_session st) = (Inr (), w')
     \<and> chat_log w' =
          (case conversation_rows (call_id (calls st ! i)) st of
             [] \<Rightarrow> []
           | j # _ \<Rightarrow> if messages (conversations st ! j) = [] then []
                      else [summary_request self (messages (conversations st ! j))])
     \<and> calls (working w') = (calls st)
          [i := (calls st ! i)\<lparr>status := COMPLETED, duration := d, recording_url := rc\<rparr>]
     \<and> voice_profiles (working w') = voice_profiles st
     \<and> conversations (working w') =
          (case conversation_rows (call_id (calls st ! i)) st of
             [] \<Rightarrow> conversations st
           | j # _ \<Rightarrow>
               if messages (conversations st ! j) = [] then conversations st
               else (conversations st)
                      [j := (conversations st ! j)
                         \<lparr>summary := Some (summary_text e self
                             (messages (conversations st ! j)))\<rparr>])
     \<and> (if d \<noteq> duration (calls st ! i) \<and> \<not> fits_integer d
         then database w' = st \<and> commits w' = []
              \<and> logged w' \<noteq> []
              \<and> last (logged w') = (ERROR, ''Failed to handle call completion'')
         else database w' = working w' \<and> commits w' = [database w'])"
proof -
  let ?c' = "(calls st ! i)\<lparr>status := COMPLETED, duration := d, recording_url := rc\<rparr>"
  let ?js = "conversation_rows (call_id (calls st ! i)) st"
  define wa where "wa = (open_session st)\<lparr>working := st\<lparr>calls := (calls st)[i := ?c']\<rparr>\<rparr>"
  have i: "i < length (calls st)"
    using select_where_single[OF ci[unfolded call_rows_def]] by simp
  have s1: "select_calls (\<lambda>c. twilio_call_sid c = sid) (open_session st) = (Inr [i], open_session st)"
    using ci by (simp add: select_calls_def call_rows_def open_session_def)
  have s2: "scalar_one_or_none [i] (open_session st) = (Inr (Some i), open_session st)"
    by (simp add: returns_def)
  have s3: "set_call i (\<lambda>c. c\<lparr>status := COMPLETED, duration := d, recording_url := rc\<rparr>)
              (open_session st) = (Inr (), wa)"
    by (simp add: set_call_def wa_def open_session_def)
  have s4: "get_call i wa = (Inr ?c', wa)"
    using i by (simp add: get_call_def wa_def)
  have s5: "select_conversations (\<lambda>v. conv_call_id v = call_id ?c') wa = (Inr ?js, wa)"
    by (simp add: select_conversations_def conversation_rows_def wa_def)
  obtain wb where s6: "and_then (scalar_one_or_none ?js) (summarise e self) wa = (Inr (), wb)"
    and db: "database wb = database wa" and cm: "commits wb = commits wa"
    and cl: "calls (working wb) = calls (working wa)"
    and vp: "voice_profiles (working wb) = voice_profiles (working wa)"
    and cv: "(case ?js of
           [] \<Rightarrow> conversations (working wb) = conversations (working wa)
                 \<and> chat_log wb = chat_log wa
         | j # _ \<Rightarrow>
             if messages (conversations (working wa) ! j) = []
             then conversations (working wb) = conversations (working wa)
                  \<and> chat_log wb = chat_log wa
             else conversations (working wb) = (conversations (working wa))
                    [j := (conversations (working wa) ! j)
                       \<lparr>summary := Some (summary_text e self
                                          (messages (conversations (working wa) ! j)))\<rparr>]
                  \<and> chat_log wb = chat_log wa
                       @ [summary_request self (messages (conversations (working wa) ! j))])"
    using summarise_effect[OF cj, of e self wa] by blast
  have wa0: "conversations (working wa) = conversations st" "chat_log wa = []"
    "database wa = st" "commits wa = []" "calls (working wa) = (calls st)[i := ?c']"
    "voice_profiles (working wa) = voice_profiles st"
    by (simp_all add: wa_def open_session_def)
  have cl': "calls (working wb) = (calls (database wb))[i := ?c']"
    "i < length (calls (database wb))"
    using i by (simp_all add: cl db wa_def open_session_def)
  have ru: "refused_update (calls (database wb) ! i) ?c'
              \<longleftrightarrow> d \<noteq> duration (calls st ! i) \<and> \<not> fits_integer d"
    by (auto simp: refused_update_def db wa_def open_session_def)
  have front: "and_then (select_calls (\<lambda>c. twilio_call_sid c = sid)) (\<lambda>found.
        and_then (scalar_one_or_none found) (\<lambda>call_row.
        (case call_row of
           None \<Rightarrow> returns ()
         | Some i \<Rightarrow>
             and_then (set_call i (\<lambda>c. c\<lparr>status := COMPLETED, duration := d,
                                         recording_url := rc\<rparr>)) (\<lambda>_.
             and_then (get_call i) (\<lambda>c.
             and_then (select_conversations (\<lambda>v. conv_call_id v = call_id c)) (\<lambda>found_conv.
             and_then (scalar_one_or_none found_conv) (\<lambda>conv_row.
             and_then (summarise e self conv_row) (\<lambda>_.
             db_commit)))))))) (open_session st) = res"
    if "and_then (scalar_one_or_none ?js) (\<lambda>conv_row.
             and_then (summarise e self conv_row) (\<lambda>_. db_commit)) wa = res" for res
    apply (rule and_then_Inr, rule s1, rule and_then_Inr, rule s2)
    apply simp
    apply (rule and_then_Inr, rule s3, rule and_then_Inr, rule s4, rule and_then_Inr, rule s5)
    apply (rule that)
    done
  have exp: "chat_log wb =
          (case ?js of
             [] \<Rightarrow> []
           | j # _ \<Rightarrow> if messages (conversations st ! j) = [] then []
                      else [summary_request self (messages (conversations st ! j))])"
    "conversations (working wb) =
          (case ?js of
             [] \<Rightarrow> conversations st
           | j # _ \<Rightarrow>
               if messages (conversations st ! j) = [] then conversations st
               else (conversations st)
                      [j := (conversations st ! j)
                         \<lparr>summary := Some (summary_text e self
                             (messages (conversations st ! j)))\<rparr>])"
    using cv wa0(1,2) by (auto split: list.splits if_splits)
  show ?thesis
  proof (cases "d \<noteq> duration (calls st ! i) \<and> \<not> fits_integer d")
    case True
    with ru cl' have s7: "db_commit wb
        = (Inl (Exn DataError ''value out of range for the type of its column''), wb)"
      by (simp add: db_commit_updated_call)
    have tail: "and_then (scalar_one_or_none ?js) (\<lambda>conv_row.
             and_then (summarise e self conv_row) (\<lambda>_. db_commit)) wa
         = (Inl (Exn DataError ''value out of range for the type of its column''), wb)"
      using s6 s7 by (auto simp: and_then_def split: sum.splits prod.splits)
    have run: "handle_call_completed e self sid d rc (open_session st)
        = (Inr (), wb\<lparr>logged := logged wb @ [(ERROR, ''Failed to handle call completion'')]\<rparr>)"
      unfolding handle_call_completed_def
      by (rule try_except_Inl, rule front, rule tail) (simp add: logger_def)
    show ?thesis
      using True exp by (simp add: run cl vp wa0 db cm)
  next
    case False
    define wc where "wc = wb\<lparr>database := working wb, commits := commits wb @ [working wb]\<rparr>"
    from False ru cl' have s7: "db_commit wb = (Inr (), wc)"
      by (simp add: db_commit_updated_call wc_def)
    have tail: "and_then (scalar_one_or_none ?js) (\<lambda>conv_row.
             and_then (summarise e self conv_row) (\<lambda>_. db_commit)) wa = (Inr (), wc)"
      using s6 s7 by (auto simp: and_then_def split: sum.splits prod.splits)
    have run: "handle_call_completed e self sid d rc (open_session st) = (Inr (), wc)"
      unfolding handle_call_completed_def
      by (rule try_except_Inr, rule front, rule tail)
    show ?thesis
      using False exp by (simp add: run wc_def cl vp wa0 db cm)
  qed
qed

lemma handle_call_completed_unknown:
  assumes "call_rows sid st = []"
  shows "handle_call_completed e self sid d rc (open_session st) = (Inr (), open_session st)"
  using assms unfolding call_rows_def handle_call_completed_def select_calls_def
  by (simp add: monad_defs open_session_def)

lemma handle_incoming_call_fresh:
  assumes "call_rows sid st = []"
    and "length sid \<le> 34" and "length f \<le> 20" and "length t \<le> 20"
  shows "\<exists>w'. handle_incoming_call e self sid f t (open_session st) =
           (Inr (generate_greeting_twiml (config e) (Some greeting_text)), w')
     \<and> database w' = st\<lparr>calls := calls st @
          [\<lparr>call_id = uuid4 e 0, twilio_call_sid = sid, direction = INBOUND,
            from_number = f, to_number = t, status = IN_PROGRESS,
            duration = None, recording_url = None, transcription = None,
            call_metadata = Some []\<rparr>],
          conversations := conversations st @
          [\<lparr>conv_id = uuid4 e 1, conv_call_id = uuid4 e 0, messages = [], summary = None,
            intent = JNull, sentiment = JNull\<rparr>]\<rparr>"
proof -
  have "\<forall>k<length (calls st). twilio_call_sid (calls st ! k) \<noteq> sid"
    using assms(1) by (simp add: call_rows_def select_where_def filter_empty_conv)
  then have "sid \<notin> twilio_call_sid ` set (calls st)"
    by (auto simp: in_set_conv_nth)
  then show ?thesis
    using assms(2-4)
    unfolding handle_incoming_call_def new_id_def db_add_call_def db_add_conversation_def
      db_commit_def
    by (simp add: monad_defs open_session_def column_violation_snoc column_violation_same
          refused_insert_def fits_integer_def)
qed

lemma handle_incoming_call_refused:
  assumes "34 < length sid \<or> 20 < length f \<or> 20 < length t"
  shows "\<exists>w'. handle_incoming_call e self sid f t (open_session st) =
           (Inr (generate_hangup_twiml (Some incoming_failure_text)), w')
     \<and> database w' = st \<and> commits w' = []"
  using assms
  unfolding handle_incoming_call_def new_id_def db_add_call_def db_commit_def
  by (auto simp: monad_defs open_session_def column_violation_snoc refused_insert_def)

lemma text_to_speech_no_voice:
  assumes "\<not> truthy voice_id" "\<not> truthy (default_voice_id s)"
  shows "text_to_speech e s t voice_id m a b w =
           (Inl (Exn ElevenLabsError ''Text-to-speech failed: No voice ID provided or configured''),
            w\<lparr>logged := logged w @ [(ERROR, ''Failed to generate speech'')]\<rparr>)"
  using assms unfolding text_to_speech_def py_or_def
  by (simp add: monad_defs)

section \<open>The claims\<close>

subsection \<open>Facts about the concrete stores and environments\<close>

lemma ex_store_rows:
  "call_rows ''CA123'' ex_store = [0]"
  "conversation_rows (call_id (calls ex_store ! 0)) ex_store = [0]"
  "call_rows ''CA999'' ex_store = []"
  by (simp_all add: call_rows_def conversation_rows_def select_where_def ex_store_def
        ex_call_def ex_conversation_def)

lemma ex_store_prior_rows:
  "call_rows ''CA123'' ex_store_prior = [0]"
  "conversation_rows (call_id (calls ex_store_prior ! 0)) ex_store_prior = [0]"
  by (simp_all add: call_rows_def conversation_rows_def select_where_def ex_store_prior_def
        ex_call_def ex_conversation_prior_def)

lemma env_down_refuses: "chat_create env_down req = Inl (Exn OpenAISDKError ''Connection error.'')"
  by (simp add: env_down_def provider_refuses_def)

lemma env_down_classification: "classification_fails env_down req"
  by (simp add: classification_fails_def env_down_refuses)

lemma fallback_response_nonempty: "fallback_response \<noteq> []"
  by (simp add: fallback_response_def)

lemma generate_response_any_failure:
  assumes "fst (chat_completion e (agent_openai ag) (build_messages ag u h c)
                  None (Some 0.7) (Some 500) False w) = Inl ex"
  shows "fst (generate_response e ag u h c w) = Inr fallback_response"
  using assms
    text_or_default[of "chat_completion e (agent_openai ag) (build_messages ag u h c)
      None (Some 0.7) (Some 500) False" w ERROR "''Failed to generate response''" fallback_response]
    chat_completion_frame
  unfolding generate_response_def by fastforce

text \<open>
  C7. \<open>text_to_speech\<close> fails with the typed error \<open>ElevenLabsError\<close> whenever no voice id
  is resolvable (the argument is absent or empty and so is the configured default), and
  then sends no synthesis request: the request log is as it was.
\<close>

theorem text_to_speech_unresolved_voice:
  assumes "\<not> truthy voice_id" and "\<not> truthy (default_voice_id self)"
  shows "fst (text_to_speech e self text voice_id model_arg stability similarity_boost w)
           = Inl (Exn ElevenLabsError
                   ''Text-to-speech failed: No voice ID provided or configured'')
       \<and> tts_log (snd (text_to_speech e self text voice_id model_arg stability
                          similarity_boost w)) = tts_log w"
  by (simp add: text_to_speech_no_voice[OF assms])

theorem text_to_speech_unresolved_voice_witness:
  "\<not> truthy None \<and> \<not> truthy (default_voice_id (elevenlabs ex_handler))
   \<and> fst (text_to_speech env_up (elevenlabs ex_handler) ''Claro.'' None None 0.5 0.75
            (open_session ex_store))
       = Inl (Exn ElevenLabsError ''Text-to-speech failed: No voice ID provided or configured'')
   \<and> tts_log (snd (text_to_speech env_up (elevenlabs ex_handler) ''Claro.'' None None 0.5 0.75
            (open_session ex_store))) = []"
proof -
  have h1: "\<not> truthy None" by (simp add: truthy_def)
  have h2: "\<not> truthy (default_voice_id (elevenlabs ex_handler))"
    by (simp add: truthy_def ex_handler_def)
  show ?thesis
    using h1 h2 text_to_speech_unresolved_voice[OF h1 h2, of env_up "''Claro.''" None "0.5" "0.75"
        "open_session ex_store"]
    by (simp add: open_session_def)
qed

text \<open>
  C9. \<open>handle_call_completed\<close> for a session id that matches no stored Call is a silent
  no-op: it returns normally and leaves the whole state as it found it, so no row is
  created or changed, nothing is committed, no summary is requested and nothing is logged.
\<close>

theorem handle_call_completed_unknown_session:
  assumes "call_rows call_sid st = []"
  shows "handle_call_completed e self call_sid duration_arg recording_arg (open_session st)
           = (Inr (), open_session st)"
  using assms by (rule handle_call_completed_unknown)

theorem handle_call_completed_unknown_session_witness:
  "call_rows ''CA999'' ex_store = []
   \<and> handle_call_completed env_up ex_handler ''CA999'' (Some 42) None (open_session ex_store)
       = (Inr (), open_session ex_store)
   \<and> chat_log (open_session ex_store) = []"
  using handle_call_completed_unknown_session[OF ex_store_rows(3), of env_up ex_handler "Some 42" None]
  by (simp add: ex_store_rows open_session_def)

text \<open>
  C2. A speech-gathered event whose session id matches no stored Call, or whose Call has
  no Conversation row, is answered with hangup markup, and no row is mutated: the
  committed database and the session's rows are the store as it was, and nothing is
  committed.
\<close>

theorem handle_user_speech_unknown_session:
  assumes "call_rows call_sid st = []
           \<or> (call_rows call_sid st = [i] \<and> conversation_rows (call_id (calls st ! i)) st = [])"
  shows "\<exists>w'. handle_user_speech e self call_sid speech_result (open_session st)
                 = (Inr (generate_hangup_twiml None), w')
          \<and> generate_hangup_twiml None = [Hangup]
          \<and> database w' = st \<and> working w' = st \<and> commits w' = []"
  using assms
proof
  assume "call_rows call_sid st = []"
  from handle_user_speech_unknown_call[OF this, of e self speech_result] show ?thesis
    by (simp add: generate_hangup_twiml_def truthy_def open_session_def)
next
  assume "call_rows call_sid st = [i] \<and> conversation_rows (call_id (calls st ! i)) st = []"
  then have "call_rows call_sid st = [i]" "conversation_rows (call_id (calls st ! i)) st = []"
    by simp_all
  from handle_user_speech_no_conversation[OF this, of e self speech_result] show ?thesis
    by (simp add: generate_hangup_twiml_def truthy_def open_session_def)
qed

theorem handle_user_speech_unknown_session_witness:
  "call_rows ''CA999'' ex_store = []
   \<and> fst (handle_user_speech env_up ex_handler ''CA999'' ''hola'' (open_session ex_store))
       = Inr [Hangup]
   \<and> database (snd (handle_user_speech env_up ex_handler ''CA999'' ''hola''
                      (open_session ex_store))) = ex_store
   \<and> call_rows ''CA123'' (ex_store\<lparr>conversations := []\<rparr>) = [0]
   \<and> conversation_rows (call_id (calls (ex_store\<lparr>conversations := []\<rparr>) ! 0))
         (ex_store\<lparr>conversations := []\<rparr>) = []
   \<and> fst (handle_user_speech env_up ex_handler ''CA123'' ''hola''
            (open_session (ex_store\<lparr>conversations := []\<rparr>))) = Inr [Hangup]
   \<and> working (snd (handle_user_speech env_up ex_handler ''CA123'' ''hola''
            (open_session (ex_store\<lparr>conversations := []\<rparr>)))) = ex_store\<lparr>conversations := []\<rparr>"
proof -
  have r: "call_rows ''CA123'' (ex_store\<lparr>conversations := []\<rparr>) = [0]"
    "conversation_rows (call_id (calls (ex_store\<lparr>conversations := []\<rparr>) ! 0))
         (ex_store\<lparr>conversations := []\<rparr>) = []"
    by (simp_all add: call_rows_def conversation_rows_def select_where_def ex_store_def
          ex_call_def)
  show ?thesis
    using handle_user_speech_unknown_session[of "''CA999''" ex_store 0 env_up ex_handler "''hola''"]
      handle_user_speech_unknown_session[of "''CA123''" "ex_store\<lparr>conversations := []\<rparr>" 0
        env_up ex_handler "''hola''"] r
    by (auto simp: ex_store_rows)
qed

lemma generate_summary_any_failure:
  assumes "fst (chat_completion e (openai self)
                  [\<lparr>chat_role = ''user'', chat_content = summary_prompt msgs\<rparr>]
                  None (Some 0.3) (Some 150) False w) = Inl ex"
  shows "fst (generate_summary e self msgs w) = Inr ''Resumen no disponible''"
  using assms
    text_or_default[of "chat_completion e (openai self)
             [\<lparr>chat_role = ''user'', chat_content = summary_prompt msgs\<rparr>]
             None (Some 0.3) (Some 150) False" w ERROR "''Failed to generate summary''"
             "''Resumen no disponible''"]
    chat_completion_frame
  unfolding generate_summary_def by fastforce


text \<open>
  C10. \<open>_generate_summary\<close> never raises: for every message list it returns a text and
  touches nothing but the logs; when the completion call raises (as it does when the
  provider refuses the request) the text is the fixed \<open>Resumen no disponible\<close>. So in a
  completed call whose one conversation has messages the conversation gets a summary
  text, and that text is committed whenever the commit is accepted.
\<close>

theorem generate_summary_never_raises:
  "(\<exists>s w'. generate_summary e self msgs w = (Inr s, w') \<and> only_logs w w')
   \<and> (fst (chat_completion e (openai self)
              [\<lparr>chat_role = ''user'', chat_content = summary_prompt msgs\<rparr>]
              None (Some 0.3) (Some 150) False w) = Inl ex
        \<longrightarrow> fst (generate_summary e self msgs w) = Inr ''Resumen no disponible'')
   \<and> (chat_create e (summary_request self msgs) = Inl ex1
        \<longrightarrow> fst (generate_summary e self msgs w) = Inr ''Resumen no disponible'')
   \<and> (call_rows call_sid st = [i] \<and> conversation_rows (call_id (calls st ! i)) st = [j]
        \<and> messages (conversations st ! j) \<noteq> []
        \<longrightarrow> (\<exists>s. summary (conversations (working (snd (handle_call_completed e self call_sid
                      duration_arg recording_arg (open_session st)))) ! j) = Some s)
            \<and> (fits_integer duration_arg
                 \<longrightarrow> (\<exists>s. summary (conversations (database (snd (handle_call_completed e self
                            call_sid duration_arg recording_arg (open_session st)))) ! j)
                          = Some s)))"
proof (intro conjI impI)
  show "\<exists>s w'. generate_summary e self msgs w = (Inr s, w') \<and> only_logs w w'"
    by (rule generate_summary_returns)
next
  assume "fst (chat_completion e (openai self)
              [\<lparr>chat_role = ''user'', chat_content = summary_prompt msgs\<rparr>]
              None (Some 0.3) (Some 150) False w) = Inl ex"
  then show "fst (generate_summary e self msgs w) = Inr ''Resumen no disponible''"
    by (rule generate_summary_any_failure)
next
  assume "chat_create e (summary_request self msgs) = Inl ex1"
  from generate_summary_fails[OF this, of w]
  show "fst (generate_summary e self msgs w) = Inr ''Resumen no disponible''"
    by auto
next
  assume h: "call_rows call_sid st = [i] \<and> conversation_rows (call_id (calls st ! i)) st = [j]
        \<and> messages (conversations st ! j) \<noteq> []"
  then have ci: "call_rows call_sid st = [i]"
    and cj: "conversation_rows (call_id (calls st ! i)) st = [j]"
    and ms: "messages (conversations st ! j) \<noteq> []" by simp_all
  have j: "j < length (conversations st)"
    using select_where_single[OF cj[unfolded conversation_rows_def]] by simp
  have le: "length (conversation_rows (call_id (calls st ! i)) st) \<le> 1" by (simp add: cj)
  from handle_call_completed_found[OF ci le, of e self duration_arg recording_arg]
  show "\<exists>s. summary (conversations (working (snd (handle_call_completed e self call_sid
                      duration_arg recording_arg (open_session st)))) ! j) = Some s"
    using cj ms j by auto
next
  assume h: "call_rows call_sid st = [i] \<and> conversation_rows (call_id (calls st ! i)) st = [j]
        \<and> messages (conversations st ! j) \<noteq> []"
    and fi: "fits_integer duration_arg"
  then have ci: "call_rows call_sid st = [i]"
    and cj: "conversation_rows (call_id (calls st ! i)) st = [j]"
    and ms: "messages (conversations st ! j) \<noteq> []" by simp_all
  have j: "j < length (conversations st)"
    using select_where_single[OF cj[unfolded conversation_rows_def]] by simp
  have le: "length (conversation_rows (call_id (calls st ! i)) st) \<le> 1" by (simp add: cj)
  from handle_call_completed_found[OF ci le, of e self duration_arg recording_arg]
  show "\<exists>s. summary (conversations (database (snd (handle_call_completed e self
                            call_sid duration_arg recording_arg (open_session st)))) ! j)
                          = Some s"
    using cj ms j fi by auto
qed

theorem generate_summary_never_raises_witness:
  "chat_create env_down (summary_request ex_handler (messages ex_conversation_prior))
     = Inl (Exn OpenAISDKError ''Connection error.'')
   \<and> fst (generate_summary env_down ex_handler (messages ex_conversation_prior)
            (open_session ex_store_prior)) = Inr ''Resumen no disponible''
   \<and> call_rows ''CA123'' ex_store_prior = [0]
   \<and> conversation_rows (call_id (calls ex_store_prior ! 0)) ex_store_prior = [0]
   \<and> messages (conversations ex_store_prior ! 0) \<noteq> []
   \<and> fits_integer (Some 42)
   \<and> (\<exists>s. summary (conversations (database (snd (handle_call_completed env_down ex_handler
              ''CA123'' (Some 42) None (open_session ex_store_prior)))) ! 0) = Some s)"
proof -
  have m: "messages (conversations ex_store_prior ! 0) \<noteq> []"
    by (simp add: ex_store_prior_def ex_conversation_prior_def)
  have f: "fits_integer (Some 42)" by (simp add: fits_integer_def)
  show ?thesis
    using generate_summary_never_raises[of env_down ex_handler "messages ex_conversation_prior"
        "open_session ex_store_prior" _ "Exn OpenAISDKError ''Connection error.''"
        "''CA123''" ex_store_prior 0 0 "Some 42" None]
      env_down_refuses ex_store_prior_rows m f
    by simp
qed





text \<open>
  C8. \<open>PhoneAgent.generate_response\<close> never raises. Whenever its completion call raises,
  as it does when the provider refuses the request, it returns the fixed apology, which
  is not empty; so on a completion failure \<open>handle_user_speech\<close> stores the user message
  followed by an assistant message that carries the apology.
\<close>

theorem generate_response_total:
  "(\<exists>r w'. generate_response e ag user_message history ctx w = (Inr r, w'))
   \<and> (fst (chat_completion e (agent_openai ag) (build_messages ag user_message history ctx)
              None (Some 0.7) (Some 500) False w) = Inl ex
        \<longrightarrow> fst (generate_response e ag user_message history ctx w) = Inr fallback_response)
   \<and> (chat_create e (completion_request (agent_openai ag)
                        (build_messages ag user_message history ctx)
                        None (Some 0.7) (Some 500)) = Inl ex1
        \<longrightarrow> fst (generate_response e ag user_message history ctx w) = Inr fallback_response)
   \<and> fallback_response \<noteq> []
   \<and> (call_rows call_sid st = [i] \<and> conversation_rows (call_id (calls st ! i)) st = [j]
        \<and> chat_create e (reply_request self (calls st ! i) (conversations st ! j) speech_result)
            = Inl ex2
        \<longrightarrow> messages (conversations (database (snd (handle_user_speech e self call_sid
                speech_result (open_session st)))) ! j)
            = messages (conversations st ! j)
              @ [\<lparr>role = ''user'', content = speech_result, timestamp = utcnow e 0\<rparr>,
                 \<lparr>role = ''assistant'', content = fallback_response, timestamp = utcnow e 1\<rparr>])"
proof (intro conjI impI)
  show "\<exists>r w'. generate_response e ag user_message history ctx w = (Inr r, w')"
    using generate_response_returns[of e ag user_message history ctx w] by blast
next
  assume "fst (chat_completion e (agent_openai ag) (build_messages ag user_message history ctx)
              None (Some 0.7) (Some 500) False w) = Inl ex"
  then show "fst (generate_response e ag user_message history ctx w) = Inr fallback_response"
    by (rule generate_response_any_failure)
next
  assume "chat_create e (completion_request (agent_openai ag)
                        (build_messages ag user_message history ctx)
                        None (Some 0.7) (Some 500)) = Inl ex1"
  from generate_response_fails[OF this, of w]
  show "fst (generate_response e ag user_message history ctx w) = Inr fallback_response"
    by auto
next
  show "fallback_response \<noteq> []" by (rule fallback_response_nonempty)
next
  assume h: "call_rows call_sid st = [i] \<and> conversation_rows (call_id (calls st ! i)) st = [j]
        \<and> chat_create e (reply_request self (calls st ! i) (conversations st ! j) speech_result)
            = Inl ex2"
  then have ci: "call_rows call_sid st = [i]"
    and cj: "conversation_rows (call_id (calls st ! i)) st = [j]" by simp_all
  have j: "j < length (conversations st)"
    using select_where_single[OF cj[unfolded conversation_rows_def]] by simp
  from handle_user_speech_found[OF ci cj, of e self speech_result] h j
  show "messages (conversations (database (snd (handle_user_speech e self call_sid
                speech_result (open_session st)))) ! j)
            = messages (conversations st ! j)
              @ [\<lparr>role = ''user'', content = speech_result, timestamp = utcnow e 0\<rparr>,
                 \<lparr>role = ''assistant'', content = fallback_response, timestamp = utcnow e 1\<rparr>]"
    by auto
qed

theorem generate_response_total_witness:
  "chat_create env_down (completion_request (agent_openai (phone_agent ex_handler))
       (build_messages (phone_agent ex_handler) ''hola'' None None) None (Some 0.7) (Some 500))
     = Inl (Exn OpenAISDKError ''Connection error.'')
   \<and> fst (generate_response env_down (phone_agent ex_handler) ''hola'' None None
            (open_session ex_store)) = Inr fallback_response
   \<and> call_rows ''CA123'' ex_store = [0]
   \<and> conversation_rows (call_id (calls ex_store ! 0)) ex_store = [0]
   \<and> chat_create env_down (reply_request ex_handler (calls ex_store ! 0)
        (conversations ex_store ! 0) ''hola'') = Inl (Exn OpenAISDKError ''Connection error.'')
   \<and> messages (conversations (database (snd (handle_user_speech env_down ex_handler ''CA123''
        ''hola'' (open_session ex_store)))) ! 0)
       = [\<lparr>role = ''user'', content = ''hola'', timestamp = ''2024-01-01T00:00:00''\<rparr>,
          \<lparr>role = ''assistant'', content = fallback_response,
           timestamp = ''2024-01-01T00:00:00''\<rparr>]"
proof -
  have m: "messages (conversations ex_store ! 0) = []"
    by (simp add: ex_store_def ex_conversation_def)
  have u: "utcnow env_down 0 = ''2024-01-01T00:00:00''" "utcnow env_down 1 = ''2024-01-01T00:00:00''"
    by (simp_all add: env_down_def ex_now_def)
  show ?thesis
    using generate_response_total[of env_down "phone_agent ex_handler" "''hola''" None None
        "open_session ex_store" _ "Exn OpenAISDKError ''Connection error.''"
        "''CA123''" ex_store 0 0 ex_handler "''hola''" "Exn OpenAISDKError ''Connection error.''"]
      env_down_refuses ex_store_rows m u
    by simp
qed

text \<open>
  C1 (as stated). After a turn in which the completion provider fails, no assistant
  message with empty content is present in the conversation. This fails for a
  conversation that already holds such a message, from an earlier turn whose reply came
  back empty: the message is still there afterwards.
\<close>

theorem handle_user_speech_completion_failure_counterexample:
  "chat_create env_down (reply_request ex_handler (calls ex_store_prior ! 0)
      (conversations ex_store_prior ! 0) ''hola'') = Inl (Exn OpenAISDKError ''Connection error.'')
   \<and> role ex_silent_reply = ''assistant'' \<and> content ex_silent_reply = []
   \<and> ex_silent_reply \<in> set (messages (conversations (database (snd (handle_user_speech env_down
        ex_handler ''CA123'' ''hola'' (open_session ex_store_prior)))) ! 0))"
proof -
  have m: "messages (conversations ex_store_prior ! 0)
             = [\<lparr>role = ''user'', content = ''hola'', timestamp = ''2024-01-01T00:00:00''\<rparr>,
                ex_silent_reply]"
    "length (conversations ex_store_prior) = 1"
    by (simp_all add: ex_store_prior_def ex_conversation_prior_def)
  from handle_user_speech_found[OF ex_store_prior_rows, of env_down ex_handler "''hola''"] m
  show ?thesis
    by (auto simp: env_down_refuses ex_silent_reply_def)
qed

text \<open>
  C1 (amended). \<open>handle_user_speech\<close> never raises. In a turn whose Call and
  Conversation are found and whose completion request the provider refuses, it returns
  call-control markup (the reply markup carrying the apology, or the fallback markup),
  and the turn adds no assistant message with empty content: every such message in a
  committed conversation afterwards was stored in that conversation before the turn.
\<close>

theorem handle_user_speech_completion_failure:
  assumes "call_rows call_sid st = [i]"
    and "conversation_rows (call_id (calls st ! i)) st = [j]"
    and "chat_create e (reply_request self (calls st ! i) (conversations st ! j) speech_result)
           = Inl ex"
  shows "(\<exists>m w'. handle_user_speech e self call_sid speech_result w0 = (Inr m, w'))
     \<and> (\<exists>m w'. handle_user_speech e self call_sid speech_result (open_session st) = (Inr m, w')
          \<and> (m = generate_response_twiml (config e) fallback_response
                    (Some (''https://storage.example.com/audio/'' @ call_sid @ ''.mp3'')) True
              \<or> m = generate_response_twiml (config e) speech_failure_text None True)
          \<and> working w' = database w'
          \<and> length (conversations (database w')) = length (conversations st)
          \<and> (\<forall>k < length (conversations st).
                \<forall>msg \<in> set (messages (conversations (database w') ! k)).
                  role msg = ''assistant'' \<and> content msg = []
                  \<longrightarrow> msg \<in> set (messages (conversations st ! k))))"
proof
  show "\<exists>m w'. handle_user_speech e self call_sid speech_result w0 = (Inr m, w')"
    by (rule handle_user_speech_returns)
next
  have j: "j < length (conversations st)"
    using select_where_single[OF assms(2)[unfolded conversation_rows_def]] by simp
  obtain r iv sv m w' where
    run: "handle_user_speech e self call_sid speech_result (open_session st) = (Inr m, w')"
    and mk: "m = generate_response_twiml (config e) r
                   (Some (''https://storage.example.com/audio/'' @ call_sid @ ''.mp3'')) True
         \<or> m = generate_response_twiml (config e) speech_failure_text None True"
    and db: "database w' = st\<lparr>conversations := (conversations st)
          [j := (conversations st ! j)
             \<lparr>messages := messages (conversations st ! j)
                @ [\<lparr>role = ''user'', content = speech_result, timestamp = utcnow e 0\<rparr>,
                   \<lparr>role = ''assistant'', content = r, timestamp = utcnow e 1\<rparr>],
              intent := iv, sentiment := sv\<rparr>]\<rparr>"
    and wk: "working w' = database w'"
    and rf: "(\<exists>ex. chat_create e (reply_request self (calls st ! i) (conversations st ! j)
                speech_result) = Inl ex) \<longrightarrow> r = fallback_response"
    using handle_user_speech_found[OF assms(1,2), of e self speech_result] by blast
  have r: "r = fallback_response" using rf assms(3) by blast
  have old: "\<forall>k < length (conversations st).
                \<forall>msg \<in> set (messages (conversations (database w') ! k)).
                  role msg = ''assistant'' \<and> content msg = []
                  \<longrightarrow> msg \<in> set (messages (conversations st ! k))"
  proof (intro allI impI ballI)
    fix k msg
    assume k: "k < length (conversations st)"
      and msg: "msg \<in> set (messages (conversations (database w') ! k))"
      and e: "role msg = ''assistant'' \<and> content msg = []"
    show "msg \<in> set (messages (conversations st ! k))"
    proof (cases "k = j")
      case True
      with msg db j r e show ?thesis
        by (auto simp: fallback_response_nonempty)
    next
      case False
      with msg db k show ?thesis by simp
    qed
  qed
  show "\<exists>m w'. handle_user_speech e self call_sid speech_result (open_session st) = (Inr m, w')
          \<and> (m = generate_response_twiml (config e) fallback_response
                    (Some (''https://storage.example.com/audio/'' @ call_sid @ ''.mp3'')) True
              \<or> m = generate_response_twiml (config e) speech_failure_text None True)
          \<and> working w' = database w'
          \<and> length (conversations (database w')) = length (conversations st)
          \<and> (\<forall>k < length (conversations st).
                \<forall>msg \<in> set (messages (conversations (database w') ! k)).
                  role msg = ''assistant'' \<and> content msg = []
                  \<longrightarrow> msg \<in> set (messages (conversations st ! k)))"
    using run mk wk old r db by auto
qed

theorem handle_user_speech_completion_failure_witness:
  "call_rows ''CA123'' ex_store = [0]
   \<and> conversation_rows (call_id (calls ex_store ! 0)) ex_store = [0]
   \<and> chat_create env_down (reply_request ex_handler (calls ex_store ! 0)
        (conversations ex_store ! 0) ''hola'') = Inl (Exn OpenAISDKError ''Connection error.'')
   \<and> (\<exists>m w'. handle_user_speech env_down ex_handler ''CA123'' ''hola'' (open_session ex_store)
                 = (Inr m, w')
          \<and> (\<forall>msg \<in> set (messages (conversations (database w') ! 0)).
                \<not> (role msg = ''assistant'' \<and> content msg = [])))"
proof -
  have m: "messages (conversations ex_store ! 0) = []" "length (conversations ex_store) = 1"
    by (simp_all add: ex_store_def ex_conversation_def)
  from handle_user_speech_completion_failure[OF ex_store_rows(1,2) env_down_refuses,
      of ex_handler "''hola''" "open_session ex_store"] m
  show ?thesis
    using ex_store_rows(1,2) env_down_refuses by fastforce
qed

text \<open>
  C4 (as stated). After a turn in which classification fails, the stored intent and
  sentiment are as before. They are not: \<open>detect_intent\<close> and \<open>analyze_sentiment\<close> answer a
  failure with their defaults, and the handler stores them over the earlier values.
\<close>

theorem handle_user_speech_classification_failure_counterexample:
  "classification_fails env_down (intent_request ex_handler ''hola'')
   \<and> classification_fails env_down (sentiment_request ex_handler ''hola'')
   \<and> intent (conversations ex_store_prior ! 0) = JStr ''complaint''
   \<and> sentiment (conversations ex_store_prior ! 0) = JStr ''negative''
   \<and> intent (conversations (database (snd (handle_user_speech env_down ex_handler ''CA123''
        ''hola'' (open_session ex_store_prior)))) ! 0) = JStr ''other''
   \<and> sentiment (conversations (database (snd (handle_user_speech env_down ex_handler ''CA123''
        ''hola'' (open_session ex_store_prior)))) ! 0) = JStr ''neutral''"
proof -
  have m: "intent (conversations ex_store_prior ! 0) = JStr ''complaint''"
    "sentiment (conversations ex_store_prior ! 0) = JStr ''negative''"
    "length (conversations ex_store_prior) = 1"
    by (simp_all add: ex_store_prior_def ex_conversation_prior_def)
  from handle_user_speech_found[OF ex_store_prior_rows, of env_down ex_handler "''hola''"] m
  show ?thesis
    by (auto simp: env_down_classification)
qed

text \<open>
  C4 (amended). In a turn whose Call and Conversation are found the handler returns
  markup whatever the classification does. When the intent classification fails, the
  committed conversation's intent is the default \<open>other\<close>; when the sentiment
  classification fails, its sentiment is the default \<open>neutral\<close>.
\<close>

theorem handle_user_speech_classification_failure:
  assumes "call_rows call_sid st = [i]"
    and "conversation_rows (call_id (calls st ! i)) st = [j]"
  shows "\<exists>m w'. handle_user_speech e self call_sid speech_result (open_session st) = (Inr m, w')
     \<and> (classification_fails e (intent_request self speech_result)
          \<longrightarrow> intent (conversations (database w') ! j) = JStr ''other'')
     \<and> (classification_fails e (sentiment_request self speech_result)
          \<longrightarrow> sentiment (conversations (database w') ! j) = JStr ''neutral'')"
proof -
  have j: "j < length (conversations st)"
    using select_where_single[OF assms(2)[unfolded conversation_rows_def]] by simp
  from handle_user_speech_found[OF assms, of e self speech_result] j
  show ?thesis by auto
qed

theorem handle_user_speech_classification_failure_witness:
  "call_rows ''CA123'' ex_store = [0]
   \<and> conversation_rows (call_id (calls ex_store ! 0)) ex_store = [0]
   \<and> classification_fails env_up (intent_request ex_handler ''hola'')
   \<and> classification_fails env_up (sentiment_request ex_handler ''hola'')
   \<and> (\<exists>m w'. handle_user_speech env_up ex_handler ''CA123'' ''hola'' (open_session ex_store)
                 = (Inr m, w')
          \<and> intent (conversations (database w') ! 0) = JStr ''other''
          \<and> sentiment (conversations (database w') ! 0) = JStr ''neutral'')"
proof -
  have c: "classification_fails env_up req" for req
    by (simp add: classification_fails_def env_up_def provider_answers_def parser_rejects_def)
  from handle_user_speech_classification_failure[OF ex_store_rows(1,2), of env_up ex_handler "''hola''"]
  show ?thesis
    using ex_store_rows(1,2) c by auto
qed

text \<open>
  C5 (as stated). Some commit of \<open>handle_user_speech\<close> holds the user message without
  the assistant reply. In the turn below the session commits once, and that one commit
  holds both messages; before it the database holds neither.
\<close>

theorem handle_user_speech_commit_counterexample:
  "message_roles ex_store = [[]]
   \<and> map message_roles (commits (snd (handle_user_speech env_up ex_handler ''CA123'' ''hola''
        (open_session ex_store)))) = [[[''user'', ''assistant'']]]"
proof -
  have m: "messages (conversations ex_store ! 0) = []" "length (conversations ex_store) = 1"
    "conversations ex_store = [ex_conversation]"
    by (simp_all add: ex_store_def ex_conversation_def)
  from handle_user_speech_found[OF ex_store_rows(1,2), of env_up ex_handler "''hola''"] m
  show ?thesis
    by (auto simp: message_roles_def ex_conversation_def)
qed

text \<open>
  C5 (amended). In a turn whose Call and Conversation are found, \<open>handle_user_speech\<close>
  commits exactly once, after both messages have been appended: the single committed
  snapshot is the final database, and in it the conversation ends with the user message
  followed by the assistant reply. No commit holds the user message alone.
\<close>

theorem handle_user_speech_single_commit:
  assumes "call_rows call_sid st = [i]"
    and "conversation_rows (call_id (calls st ! i)) st = [j]"
  shows "\<exists>m w' r. handle_user_speech e self call_sid speech_result (open_session st) = (Inr m, w')
     \<and> commits w' = [database w']
     \<and> messages (conversations (database w') ! j)
         = messages (conversations st ! j)
           @ [\<lparr>role = ''user'', content = speech_result, timestamp = utcnow e 0\<rparr>,
              \<lparr>role = ''assistant'', content = r, timestamp = utcnow e 1\<rparr>]"
proof -
  have j: "j < length (conversations st)"
    using select_where_single[OF assms(2)[unfolded conversation_rows_def]] by simp
  from handle_user_speech_found[OF assms, of e self speech_result] j
  show ?thesis by auto
qed

theorem handle_user_speech_single_commit_witness:
  "call_rows ''CA123'' ex_store = [0]
   \<and> conversation_rows (call_id (calls ex_store ! 0)) ex_store = [0]
   \<and> (\<exists>m w' r. handle_user_speech env_up ex_handler ''CA123'' ''hola'' (open_session ex_store)
                   = (Inr m, w')
          \<and> commits w' = [database w']
          \<and> messages (conversations (database w') ! 0)
              = [\<lparr>role = ''user'', content = ''hola'', timestamp = ''2024-01-01T00:00:00''\<rparr>,
                 \<lparr>role = ''assistant'', content = r, timestamp = ''2024-01-01T00:00:00''\<rparr>])"
proof -
  have m: "messages (conversations ex_store ! 0) = []"
    by (simp add: ex_store_def ex_conversation_def)
  have u: "utcnow env_up 0 = ''2024-01-01T00:00:00''" "utcnow env_up 1 = ''2024-01-01T00:00:00''"
    by (simp_all add: env_up_def ex_now_def)
  from handle_user_speech_single_commit[OF ex_store_rows(1,2), of env_up ex_handler "''hola''"]
  show ?thesis
    using ex_store_rows(1,2) m u by simp
qed

text \<open>
  C3 (as stated). After every inbound call-started event the session id has exactly one
  Call row, with status in-progress, and one empty conversation. When the event is
  delivered for a session id that is already stored, the insert is refused by the unique
  constraint, the handler answers with the apology, and the rows stay as they were: here
  a completed Call whose conversation has two messages.
\<close>

theorem handle_incoming_call_counterexample:
  "fst (handle_incoming_call env_up ex_handler ''CA123'' ''+1555'' ''+1800''
          (open_session ex_store_prior)) = Inr (generate_hangup_twiml (Some incoming_failure_text))
   \<and> database (snd (handle_incoming_call env_up ex_handler ''CA123'' ''+1555'' ''+1800''
          (open_session ex_store_prior))) = ex_store_prior
   \<and> call_rows ''CA123'' ex_store_prior = [0]
   \<and> status (calls ex_store_prior ! 0) = COMPLETED
   \<and> message_roles ex_store_prior = [[''user'', ''assistant'']]"
proof -
  have a: "handle_incoming_call env_up ex_handler ''CA123'' ''+1555'' ''+1800''
          (open_session ex_store_prior)
      = (Inr (generate_hangup_twiml (Some incoming_failure_text)),
         (open_session ex_store_prior)\<lparr>ids_issued := 1,
            working := ex_store_prior\<lparr>calls := calls ex_store_prior @
              [\<lparr>call_id = 100, twilio_call_sid = ''CA123'', direction = INBOUND,
                from_number = ''+1555'', to_number = ''+1800'', status = IN_PROGRESS,
                duration = None, recording_url = None, transcription = None,
                call_metadata = Some []\<rparr>]\<rparr>,
            logged := [(ERROR, ''Failed to handle incoming call'')]\<rparr>)"
    unfolding handle_incoming_call_def new_id_def db_add_call_def db_commit_def
    by (simp add: monad_defs open_session_def ex_store_prior_def ex_call_def env_up_def
          ex_uuid4_def refused_insert_def refused_update_def fits_integer_def)
  show ?thesis
    by (simp add: a ex_store_prior_rows)
       (simp add: open_session_def ex_store_prior_def ex_call_def message_roles_def
          ex_conversation_prior_def ex_silent_reply_def)
qed

text \<open>
  C3 (amended). For an inbound call-started event whose session id is not yet stored,
  whose session id and two numbers fit their columns (34 and 20 characters), and whose
  new Call identifier no stored conversation refers to, \<open>handle_incoming_call\<close> returns
  the greeting markup and leaves, committed, exactly one Call row for that session id,
  with status in-progress, and exactly one Conversation row linked to it, with an empty
  message sequence.
\<close>

theorem handle_incoming_call_new_session:
  assumes "call_rows call_sid st = []" and "conversation_rows (uuid4 e 0) st = []"
    and "length call_sid \<le> 34" and "length from_no \<le> 20" and "length to_no \<le> 20"
  shows "\<exists>w'. handle_incoming_call e self call_sid from_no to_no (open_session st)
                 = (Inr (generate_greeting_twiml (config e) (Some greeting_text)), w')
     \<and> call_rows call_sid (database w') = [length (calls st)]
     \<and> calls (database w') ! length (calls st)
         = \<lparr>call_id = uuid4 e 0, twilio_call_sid = call_sid, direction = INBOUND,
            from_number = from_no, to_number = to_no, status = IN_PROGRESS,
            duration = None, recording_url = None, transcription = None,
            call_metadata = Some []\<rparr>
     \<and> conversation_rows (uuid4 e 0) (database w') = [length (conversations st)]
     \<and> conversations (database w') ! length (conversations st)
         = \<lparr>conv_id = uuid4 e 1, conv_call_id = uuid4 e 0, messages = [], summary = None,
            intent = JNull, sentiment = JNull\<rparr>"
proof -
  from handle_incoming_call_fresh[OF assms(1,3,4,5), of e self]
  obtain w' where run: "handle_incoming_call e self call_sid from_no to_no (open_session st)
                 = (Inr (generate_greeting_twiml (config e) (Some greeting_text)), w')"
    and db: "database w' = st\<lparr>calls := calls st @
          [\<lparr>call_id = uuid4 e 0, twilio_call_sid = call_sid, direction = INBOUND,
            from_number = from_no, to_number = to_no, status = IN_PROGRESS,
            duration = None, recording_url = None, transcription = None,
            call_metadata = Some []\<rparr>],
          conversations := conversations st @
          [\<lparr>conv_id = uuid4 e 1, conv_call_id = uuid4 e 0, messages = [], summary = None,
            intent = JNull, sentiment = JNull\<rparr>]\<rparr>"
    by blast
  have c: "call_rows call_sid (database w') = [length (calls st)]"
    using assms(1) by (simp add: db call_rows_def select_where_snoc)
  have v: "conversation_rows (uuid4 e 0) (database w') = [length (conversations st)]"
    using assms(2) by (simp add: db conversation_rows_def select_where_snoc)
  show ?thesis
    using run c v by (auto simp: db)
qed

theorem handle_incoming_call_new_session_witness:
  "call_rows ''CA777'' ex_store = [] \<and> conversation_rows (uuid4 env_up 0) ex_store = []
   \<and> length ''CA777'' \<le> 34 \<and> length ''+1555'' \<le> 20 \<and> length ''+1800'' \<le> 20
   \<and> (\<exists>w'. handle_incoming_call env_up ex_handler ''CA777'' ''+1555'' ''+1800''
               (open_session ex_store)
               = (Inr (generate_greeting_twiml ex_settings (Some greeting_text)), w')
         \<and> call_rows ''CA777'' (database w') = [1]
         \<and> status (calls (database w') ! 1) = IN_PROGRESS
         \<and> conversation_rows 100 (database w') = [1]
         \<and> messages (conversations (database w') ! 1) = [])"
proof -
  have h1: "call_rows ''CA777'' ex_store = []"
    by (simp add: call_rows_def select_where_def ex_store_def ex_call_def)
  have h2: "conversation_rows (uuid4 env_up 0) ex_store = []"
    by (simp add: conversation_rows_def select_where_def ex_store_def ex_conversation_def
          env_up_def ex_uuid4_def)
  have l: "length (calls ex_store) = 1" "length (conversations ex_store) = 1"
    "uuid4 env_up 0 = 100" "config env_up = ex_settings"
    by (simp_all add: ex_store_def env_up_def ex_uuid4_def)
  have h3: "length ''CA777'' \<le> 34" "length ''+1555'' \<le> 20" "length ''+1800'' \<le> 20"
    by simp_all
  from handle_incoming_call_new_session[OF h1 h2 h3, of ex_handler]
  show ?thesis
    using h1 h2 h3 l by auto
qed

end
